theory Spec2Isabelle
  imports Complex_Main "HOL-Library.AList" "HOL-Library.Multiset"
begin

section \<open>Python values and exceptions\<close>

text \<open>
  Structured values: the payload of a \<^verbatim>\<open>DictField\<close> or \<^verbatim>\<open>DynamicField\<close> and the body of
  a webhook. A Python dict keeps its insertion order, so an object is an association
  list. Floating-point leaves do not occur in what is modelled.
\<close>

datatype json =
    JNull
  | JBool bool
  | JInt int
  | JStr string
  | JList "json list"
  | JObj "(string \<times> json) list"

text \<open>
  Every exception the modelled code can raise is a value of \<open>error\<close>; a function that
  may raise returns \<open>error + 'a\<close> with \<open>Inl\<close> for the exception. \<open>Exception msg\<close> is
  the plain \<^verbatim>\<open>raise Exception(msg)\<close> of processor.py, and \<open>KeyError\<close> carries the missing key.
\<close>

datatype error =
    ValidationError string
  | ValueError string
  | Exception string
  | KeyError json
  | IndexError
  | TypeError
  | AttributeError
  | DoesNotExist
  | MultipleObjectsReturned
  | NotUniqueError

text \<open>
  Modelled from the spec: \<^verbatim>\<open>Utility.check_empty_string\<close> of \<^verbatim>\<open>bot_trainer.utils\<close> is not
  among the sources. Every message that guards it reads "cannot be empty or blank
  spaces": the check holds of a string that is empty or made of blanks only.
\<close>

definition check_empty_string :: "string \<Rightarrow> bool" where
  "check_empty_string s = list_all (\<lambda>c. c = CHR '' '') s"

text \<open>
  Python's \<^verbatim>\<open>xs[i:j]\<close>: a negative bound counts from the end, and both bounds are
  clamped to the sequence, so a slice never raises.
\<close>

definition py_slice :: "'a list \<Rightarrow> int \<Rightarrow> int \<Rightarrow> 'a list" where
  "py_slice xs i j =
     (let n = int (length xs);
          lo = (if i < 0 then max 0 (i + n) else min i n);
          hi = (if j < 0 then max 0 (j + n) else min j n)
      in drop (nat lo) (take (nat hi) xs))"

section \<open>Document schema layer (data\_objects.py)\<close>

text \<open>
  Every document carries the primary key \<open>oid\<close> (\<^verbatim>\<open>_id\<close>) that the store assigns at the
  first write, its \<open>bot\<close>, its \<open>user\<close> and the creation \<open>timestamp\<close>; all classes but
  \<^verbatim>\<open>SessionConfigs\<close> also declare \<open>status\<close>. The classes extend these two bases, so a
  query by bot, status or id is written once for all of them. Field names carry the
  class as a prefix, since several classes declare \<^verbatim>\<open>name\<close>, \<^verbatim>\<open>text\<close> or \<^verbatim>\<open>value\<close>.
\<close>

record Document =
  oid :: nat
  bot :: string
  user :: string
  timestamp :: nat

record StatusDocument = Document +
  status :: bool

record Entity =
  ent_start :: int
  ent_end :: int
  ent_value :: string
  ent_entity :: string

record TrainingExamples = StatusDocument +
  te_intent :: string
  te_text :: string
  te_entities :: "Entity list"

text \<open>
  \<^verbatim>\<open>TrainingExamples.validate\<close>: the loop over the entities raises at the first one
  whose slice of the text differs from its value; the \<^verbatim>\<open>elif\<close> is reached only when
  the entity list is empty.
\<close>

fun validate_entities :: "string \<Rightarrow> Entity list \<Rightarrow> error + unit" where
  "validate_entities text [] = Inr ()"
| "validate_entities text (ent # ents) =
     (let extracted_ent = py_slice text (ent_start ent) (ent_end ent)
      in if extracted_ent \<noteq> ent_value ent
         then Inl (ValidationError (''Invalid entity: '' @ ent_entity ent @ '', value: '' @
                     ent_value ent @ '' does not match with the position in the text '' @
                     extracted_ent))
         else validate_entities text ents)"

definition TrainingExamples_validate :: "'a TrainingExamples_scheme \<Rightarrow> error + unit" where
  "TrainingExamples_validate self =
     (if te_entities self \<noteq> [] then validate_entities (te_text self) (te_entities self)
      else if check_empty_string (te_text self) \<or> check_empty_string (te_intent self)
      then Inl (ValidationError ''Training Example name and text cannot be empty or blank spaces'')
      else Inr ())"

definition is_ValidationError :: "error + 'a \<Rightarrow> bool" where
  "is_ValidationError r = (case r of Inl (ValidationError m) \<Rightarrow> True | _ \<Rightarrow> False)"

definition entity_matches :: "string \<Rightarrow> Entity \<Rightarrow> bool" where
  "entity_matches text ent = (py_slice text (ent_start ent) (ent_end ent) = ent_value ent)"


text \<open>
  The bounds of a float slot are integers when they come from outside and the floats
  \<^verbatim>\<open>0.0\<close> and \<^verbatim>\<open>1.0\<close> when \<^verbatim>\<open>Slots.validate\<close> fills them in. Python compares the
  two kinds by their numeric value.
\<close>

datatype pynum = PyInt int | PyFloat rat

definition pynum_value :: "pynum \<Rightarrow> rat" where
  "pynum_value n = (case n of PyInt i \<Rightarrow> of_int i | PyFloat r \<Rightarrow> r)"

definition pynum_truthy :: "pynum option \<Rightarrow> bool" where
  "pynum_truthy v = (case v of None \<Rightarrow> False | Some n \<Rightarrow> pynum_value n \<noteq> 0)"

text \<open>\<^verbatim>\<open>a < b\<close> on two optional numbers: comparing with \<^verbatim>\<open>None\<close> raises TypeError.\<close>

definition pynum_less :: "pynum option \<Rightarrow> pynum option \<Rightarrow> error + bool" where
  "pynum_less a b =
     (case (a, b) of
        (Some x, Some y) \<Rightarrow> Inr (pynum_value x < pynum_value y)
      | _ \<Rightarrow> Inl TypeError)"

text \<open>\<^verbatim>\<open>isinstance(v, int)\<close>: \<^verbatim>\<open>bool\<close> is a subclass of \<^verbatim>\<open>int\<close>.\<close>

definition isinstance_int :: "json \<Rightarrow> bool" where
  "isinstance_int v = (case v of JInt i \<Rightarrow> True | JBool b \<Rightarrow> True | _ \<Rightarrow> False)"

record EntitySynonyms = StatusDocument +
  es_synonym :: string
  es_value :: string


record LookupTables = StatusDocument +
  lt_name :: string
  lt_value :: string


record RegexFeatures = StatusDocument +
  rf_name :: string
  rf_pattern :: string


record Intents = StatusDocument +
  it_name :: string

definition Intents_validate :: "'a Intents_scheme \<Rightarrow> error + unit" where
  "Intents_validate self =
     (if check_empty_string (it_name self)
      then Inl (ValidationError ''Intent Name cannot be empty or blank spaces'')
      else Inr ())"

record Entities = StatusDocument +
  en_name :: string

definition Entities_validate :: "'a Entities_scheme \<Rightarrow> error + unit" where
  "Entities_validate self =
     (if check_empty_string (en_name self)
      then Inl (ValidationError ''Entity Name cannot be empty or blank spaces'')
      else Inr ())"

record Forms = StatusDocument +
  fm_name :: string

definition Forms_validate :: "'a Forms_scheme \<Rightarrow> error + unit" where
  "Forms_validate self =
     (if check_empty_string (fm_name self)
      then Inl (ValidationError ''Form name cannot be empty or blank spaces'')
      else Inr ())"

record ResponseButton =
  rb_title :: string
  rb_payload :: string

record ResponseText =
  rt_text :: string
  rt_image :: "string option"
  rt_channel :: "string option"
  rt_buttons :: "ResponseButton list"

record ResponseCustom =
  rc_blocks :: json

record Responses = StatusDocument +
  rs_name :: string
  rs_text :: "ResponseText option"
  rs_custom :: "ResponseCustom option"

definition Responses_validate :: "'a Responses_scheme \<Rightarrow> error + unit" where
  "Responses_validate self =
     (if rs_text self = None \<and> rs_custom self = None
      then Inl (ValidationError ''Either Text or Custom response must be present!'')
      else Inr ())"

record Actions = StatusDocument +
  ac_name :: string

definition Actions_validate :: "'a Actions_scheme \<Rightarrow> error + unit" where
  "Actions_validate self =
     (if check_empty_string (ac_name self)
      then Inl (ValidationError ''Action name cannot be empty or blank spaces'')
      else Inr ())"

text \<open>
  \<^verbatim>\<open>SessionConfigs\<close> declares no \<open>status\<close>, no \<^verbatim>\<open>validate\<close> and no unique field.
\<close>

record SessionConfigs = Document +
  sc_sesssionExpirationTime :: int
  sc_carryOverSlots :: bool

definition SessionConfigs_validate :: "'a SessionConfigs_scheme \<Rightarrow> error + unit" where
  "SessionConfigs_validate self = Inr ()"

text \<open>
  The type names of the slot classes of \<^verbatim>\<open>rasa.core.slots\<close> (\<^verbatim>\<open>FloatSlot.type_name\<close> and
  the others), constants of the library.
\<close>

definition FloatSlot_type_name :: string where "FloatSlot_type_name = ''float''"
definition CategoricalSlot_type_name :: string where "CategoricalSlot_type_name = ''categorical''"
definition TextSlot_type_name :: string where "TextSlot_type_name = ''text''"
definition BooleanSlot_type_name :: string where "BooleanSlot_type_name = ''bool''"
definition ListSlot_type_name :: string where "ListSlot_type_name = ''list''"
definition UnfeaturizedSlot_type_name :: string where "UnfeaturizedSlot_type_name = ''unfeaturized''"

record Slots = StatusDocument +
  sl_name :: string
  sl_type :: string
  sl_initial_value :: json
  sl_value_reset_delay :: "int option"
  sl_auto_fill :: bool
  sl_value :: "string option"
  sl_values :: "string list"
  sl_max_value :: "pynum option"
  sl_min_value :: "pynum option"

text \<open>
  \<^verbatim>\<open>Slots.validate\<close> assigns to \<^verbatim>\<open>self\<close> and collects messages in the local variable
  \<^verbatim>\<open>error\<close>. \<open>Slots_validate_run\<close> returns both as they are when the method returns:
  the float branch builds \<^verbatim>\<open>ValidationError(error)\<close> without a \<^verbatim>\<open>raise\<close>, so the
  local never leaves the method. The empty name or type raises \<^verbatim>\<open>ValueError\<close>.
\<close>

definition Slots_validate_run :: "'a Slots_scheme \<Rightarrow> error + ('a Slots_scheme \<times> string)" where
  "Slots_validate_run self =
     (if check_empty_string (sl_name self) \<or> check_empty_string (sl_type self)
      then Inl (ValueError ''Slot name and type cannot be empty or blank spaces'')
      else if sl_type self = FloatSlot_type_name then
        (let self1 = (if \<not> pynum_truthy (sl_min_value self) \<and> \<not> pynum_truthy (sl_max_value self)
                      then self\<lparr>sl_min_value := Some (PyFloat 0), sl_max_value := Some (PyFloat 1)\<rparr>
                      else self)
         in case pynum_less (sl_min_value self1) (sl_max_value self1) of
              Inl e \<Rightarrow> Inl e
            | Inr lt \<Rightarrow>
                (let error1 = (if lt then ''FloatSlot must have min_value < max_value'' else []);
                     error2 = (if \<not> isinstance_int (sl_initial_value self1)
                               then ''FloatSlot initial_value must be numeric value''
                               else error1)
                 in Inr (self1, error2)))
      else if sl_type self = CategoricalSlot_type_name then
        (if sl_values self = []
         then Inl (ValidationError ''CategoricalSlot must have list of categories in values field'')
         else Inr (self, []))
      else Inr (self, []))"

definition Slots_validate :: "'a Slots_scheme \<Rightarrow> error + 'a Slots_scheme" where
  "Slots_validate self =
     (case Slots_validate_run self of Inl e \<Rightarrow> Inl e | Inr (self', error) \<Rightarrow> Inr self')"

text \<open>
  The events of \<^verbatim>\<open>rasa.core.events\<close> that the repository reads and builds:
  \<^verbatim>\<open>UserUttered(text, intent, timestamp)\<close> with the intent as its name and confidence,
  \<^verbatim>\<open>ActionExecuted(action_name, timestamp)\<close>, and any other event.
\<close>

datatype Event =
    UserUttered string "(string \<times> rat) option" "nat option"
  | ActionExecuted string "nat option"
  | OtherEvent

definition type_name :: "Event \<Rightarrow> string" where
  "type_name e = (case e of UserUttered t i ts \<Rightarrow> ''user'' | ActionExecuted a ts \<Rightarrow> ''action''
                  | OtherEvent \<Rightarrow> ''event'')"

record StoryEvents =
  se_name :: string
  se_type :: string

text \<open>
  \<^verbatim>\<open>Stories.events\<close> is a Python list; \<^verbatim>\<open>Stories.validate\<close> asks each end of it for its
  class. An element is either an embedded \<^verbatim>\<open>StoryEvents\<close> document, which is what the
  repository stores, or an event object of rasa.
\<close>

datatype event_obj = StoryEventsDoc StoryEvents | RasaEvent Event

definition isinstance_UserUttered :: "event_obj \<Rightarrow> bool" where
  "isinstance_UserUttered x = (case x of RasaEvent (UserUttered t i ts) \<Rightarrow> True | _ \<Rightarrow> False)"

definition isinstance_ActionExecuted :: "event_obj \<Rightarrow> bool" where
  "isinstance_ActionExecuted x = (case x of RasaEvent (ActionExecuted a ts) \<Rightarrow> True | _ \<Rightarrow> False)"

record Stories = StatusDocument +
  st_block_name :: string
  st_events :: "event_obj list"

text \<open>
  \<^verbatim>\<open>Stories.validate\<close>. \<^verbatim>\<open>self.events[0]\<close> raises IndexError on an empty list; the
  \<^verbatim>\<open>elif\<close> reads \<^verbatim>\<open>self.events[-1]\<close> only when the list has a first element.
\<close>

definition Stories_validate :: "'a Stories_scheme \<Rightarrow> error + unit" where
  "Stories_validate self =
     (if check_empty_string (st_block_name self)
      then Inl (ValidationError ''Story path name cannot be empty or blank spaces'')
      else case st_events self of
             [] \<Rightarrow> Inl IndexError
           | ev # evs \<Rightarrow>
               if isinstance_UserUttered ev
               then Inl (ValidationError ''Stories must start with intent'')
               else if isinstance_ActionExecuted (last (ev # evs))
               then Inl (ValidationError ''Stories must end with action'')
               else Inr ())"

record Configs = StatusDocument +
  cf_language :: string
  cf_pipeline :: "json list"
  cf_policies :: "json list"

definition Configs_validate :: "'a Configs_scheme \<Rightarrow> error + unit" where
  "Configs_validate self = Inr ()"

section \<open>The document store\<close>

text \<open>
  One list per collection, in insertion order, and the next primary key to hand out.
  A query returns the matching documents in the order of the list.
\<close>

record store =
  col_TrainingExamples :: "TrainingExamples list"
  col_EntitySynonyms :: "EntitySynonyms list"
  col_LookupTables :: "LookupTables list"
  col_RegexFeatures :: "RegexFeatures list"
  col_Intents :: "Intents list"
  col_Entities :: "Entities list"
  col_Forms :: "Forms list"
  col_Responses :: "Responses list"
  col_Actions :: "Actions list"
  col_SessionConfigs :: "SessionConfigs list"
  col_Slots :: "Slots list"
  col_Stories :: "Stories list"
  col_Configs :: "Configs list"
  next_oid :: nat

definition empty_store :: store where
  "empty_store = \<lparr>col_TrainingExamples = [], col_EntitySynonyms = [], col_LookupTables = [],
     col_RegexFeatures = [], col_Intents = [], col_Entities = [], col_Forms = [],
     col_Responses = [], col_Actions = [], col_SessionConfigs = [], col_Slots = [],
     col_Stories = [], col_Configs = [], next_oid = 0\<rparr>"

text \<open>\<^verbatim>\<open>Cls.objects(bot=bot)\<close> and \<^verbatim>\<open>Cls.objects(bot=bot, status=status)\<close>.\<close>

definition objects_bot :: "string \<Rightarrow> 'a Document_scheme list \<Rightarrow> 'a Document_scheme list" where
  "objects_bot b docs = filter (\<lambda>d. bot d = b) docs"

definition objects_bot_status ::
  "string \<Rightarrow> bool \<Rightarrow> 'a StatusDocument_scheme list \<Rightarrow> 'a StatusDocument_scheme list" where
  "objects_bot_status b st docs = filter (\<lambda>d. bot d = b \<and> status d = st) docs"

text \<open>
  \<^verbatim>\<open>objects.get(...)\<close>: the one match, \<^verbatim>\<open>DoesNotExist\<close> for none,
  \<^verbatim>\<open>MultipleObjectsReturned\<close> for several.
\<close>

definition objects_get :: "('d \<Rightarrow> bool) \<Rightarrow> 'd list \<Rightarrow> error + 'd" where
  "objects_get p docs =
     (case filter p docs of
        [] \<Rightarrow> Inl DoesNotExist
      | [d] \<Rightarrow> Inr d
      | d # d' # ds \<Rightarrow> Inl MultipleObjectsReturned)"

text \<open>
  The aggregation \<^verbatim>\<open>{"$group": {"_id": key, field: {"$push": value}}}\<close>: one group per
  key, holding the values of its documents in their order; the groups are listed by the
  first document of each.
\<close>

fun aggregate_group :: "('d \<Rightarrow> 'k) \<Rightarrow> ('d \<Rightarrow> 'v) \<Rightarrow> 'd list \<Rightarrow> ('k \<times> 'v list) list" where
  "aggregate_group k v [] = []"
| "aggregate_group k v (d # ds) =
     (k d, v d # map v (filter (\<lambda>x. k x = k d) ds))
       # aggregate_group k v (filter (\<lambda>x. k x \<noteq> k d) ds)"

text \<open>
  Writes. An operation on the store returns its outcome together with the store it
  leaves behind, also when it raises: nothing is rolled back. Following the schema
  layer's contract (validation precedes persistence and a rejected batch writes
  nothing), a bulk \<^verbatim>\<open>objects.insert\<close> validates every document, stops at the first one
  that is rejected, and otherwise appends the batch, giving each document a fresh key.
  A validator that assigns to its document (\<^verbatim>\<open>Slots.validate\<close>) returns the document as it
  leaves it; \<open>checked\<close> lifts the others. The placeholder key of a document that was
  never written is \<open>0\<close>.
\<close>

type_synonym 'a outcome = "(error + 'a) \<times> store"

definition and_then :: "'a outcome \<Rightarrow> ('a \<Rightarrow> store \<Rightarrow> 'b outcome) \<Rightarrow> 'b outcome" where
  "and_then r f = (case r of (Inl e, s) \<Rightarrow> (Inl e, s) | (Inr x, s) \<Rightarrow> f x s)"

definition checked :: "('d \<Rightarrow> error + unit) \<Rightarrow> 'd \<Rightarrow> error + 'd" where
  "checked validate d = (case validate d of Inl e \<Rightarrow> Inl e | Inr u \<Rightarrow> Inr d)"

fun validate_docs :: "('d \<Rightarrow> error + 'd) \<Rightarrow> 'd list \<Rightarrow> error + 'd list" where
  "validate_docs validate [] = Inr []"
| "validate_docs validate (d # ds) =
     (case validate d of
        Inl e \<Rightarrow> Inl e
      | Inr d' \<Rightarrow> (case validate_docs validate ds of Inl e \<Rightarrow> Inl e | Inr ds' \<Rightarrow> Inr (d' # ds')))"

definition assign_oids :: "nat \<Rightarrow> 'a Document_scheme list \<Rightarrow> 'a Document_scheme list" where
  "assign_oids n docs = map (\<lambda>(i, d). d\<lparr>oid := i\<rparr>) (enumerate n docs)"

definition objects_insert ::
  "(('a Document_scheme list \<Rightarrow> 'a Document_scheme list) \<Rightarrow> store \<Rightarrow> store) \<Rightarrow>
   ('a Document_scheme \<Rightarrow> error + 'a Document_scheme) \<Rightarrow> 'a Document_scheme list \<Rightarrow>
   store \<Rightarrow> unit outcome" where
  "objects_insert col_update validate docs s =
     (case validate_docs validate docs of
        Inl e \<Rightarrow> (Inl e, s)
      | Inr docs' \<Rightarrow>
          (Inr (), next_oid_update (\<lambda>n. n + length docs')
                     (col_update (\<lambda>old. old @ assign_oids (next_oid s) docs') s)))"

text \<open>\<^verbatim>\<open>doc.save()\<close> of a new document: validate it, then write it under a fresh key.\<close>

definition document_save ::
  "(('a Document_scheme list \<Rightarrow> 'a Document_scheme list) \<Rightarrow> store \<Rightarrow> store) \<Rightarrow>
   ('a Document_scheme \<Rightarrow> error + 'a Document_scheme) \<Rightarrow> 'a Document_scheme \<Rightarrow>
   store \<Rightarrow> unit outcome" where
  "document_save col_update validate doc s = objects_insert col_update validate [doc] s"

section \<open>Bot data repository (processor.py): training data\<close>

text \<open>
  The training data of rasa, as the repository reads and builds it. A message holds its
  text and, in \<^verbatim>\<open>data\<close>, the intent and possibly the key \<^verbatim>\<open>entities\<close>; an absent key is
  \<open>None\<close>. An entity dict has the four keys of \<open>Entity\<close>. The synonyms are a dict
  (an association list in insertion order), a lookup table is a dict with \<^verbatim>\<open>name\<close> and
  \<^verbatim>\<open>elements\<close>. A regex feature is a dict with \<^verbatim>\<open>name\<close> and \<^verbatim>\<open>pattern\<close> when it is
  saved, and with \<^verbatim>\<open>name\<close> and \<^verbatim>\<open>elements\<close> when \<^verbatim>\<open>fetch_regex_features\<close> builds it.
\<close>

record Message =
  msg_text :: string
  msg_intent :: "string option"
  msg_entities :: "Entity list option"

record lookup_table =
  lk_name :: string
  lk_elements :: "string list"

record regex_feature =
  rx_name :: string
  rx_pattern :: string

record regex_elements =
  re_name :: string
  re_elements :: string

record 'r TrainingData =
  td_training_examples :: "Message list"
  td_entity_synonyms :: "(string \<times> string) list"
  td_lookup_tables :: "lookup_table list"
  td_regex_features :: "'r list"

definition extract_entities :: "Entity list \<Rightarrow> Entity list" where
  "extract_entities entities =
     map (\<lambda>entity. \<lparr>ent_start = ent_start entity, ent_end = ent_end entity,
                     ent_value = ent_value entity, ent_entity = ent_entity entity\<rparr>) entities"





definition fetch_synonyms :: "store \<Rightarrow> string \<Rightarrow> bool \<Rightarrow> (string \<times> string) list list" where
  "fetch_synonyms s b st =
     map (\<lambda>entitySynonym. [(es_value entitySynonym, es_synonym entitySynonym)])
       (objects_bot_status b st (col_EntitySynonyms s))"

text \<open>
  \<^verbatim>\<open>dict(ChainMap(*maps))\<close>: a lookup takes the first map that has the key; the keys are
  listed from the last map to the first, each at its first appearance there.
\<close>

definition dict_ChainMap :: "('k \<times> 'v) list list \<Rightarrow> ('k \<times> 'v) list" where
  "dict_ChainMap maps =
     (let keys = rev (remdups (rev (concat (map (map fst) (rev maps)))))
      in List.map_filter (\<lambda>k. map_option (Pair k) (map_of (concat maps) k)) keys)"

definition prepare_training_synonyms :: "store \<Rightarrow> string \<Rightarrow> (string \<times> string) list" where
  "prepare_training_synonyms s b = dict_ChainMap (fetch_synonyms s b True)"

definition prepare_entities :: "Entity list \<Rightarrow> Entity list" where
  "prepare_entities entities =
     map (\<lambda>entity. \<lparr>ent_start = ent_start entity, ent_end = ent_end entity,
                     ent_value = ent_value entity, ent_entity = ent_entity entity\<rparr>) entities"

definition fetch_training_examples :: "store \<Rightarrow> string \<Rightarrow> bool \<Rightarrow> Message list" where
  "fetch_training_examples s b st =
     map (\<lambda>trainingExample.
            \<lparr>msg_text = te_text trainingExample, msg_intent = Some (te_intent trainingExample),
             msg_entities = (if te_entities trainingExample \<noteq> []
                             then Some (prepare_entities (te_entities trainingExample))
                             else None)\<rparr>)
       (objects_bot_status b st (col_TrainingExamples s))"

definition prepare_training_examples :: "store \<Rightarrow> string \<Rightarrow> Message list" where
  "prepare_training_examples s b = fetch_training_examples s b True"



definition fetch_lookup_tables :: "store \<Rightarrow> string \<Rightarrow> bool \<Rightarrow> lookup_table list" where
  "fetch_lookup_tables s b st =
     map (\<lambda>(name, elements). \<lparr>lk_name = name, lk_elements = elements\<rparr>)
       (aggregate_group lt_name lt_value (objects_bot_status b st (col_LookupTables s)))"

definition prepare_training_lookup_tables :: "store \<Rightarrow> string \<Rightarrow> lookup_table list" where
  "prepare_training_lookup_tables s b = fetch_lookup_tables s b True"



definition fetch_regex_features :: "store \<Rightarrow> string \<Rightarrow> bool \<Rightarrow> regex_elements list" where
  "fetch_regex_features s b st =
     map (\<lambda>regex_feature. \<lparr>re_name = rf_name regex_feature, re_elements = rf_pattern regex_feature\<rparr>)
       (objects_bot_status b st (col_RegexFeatures s))"

definition prepare_training_regex_features :: "store \<Rightarrow> string \<Rightarrow> regex_elements list" where
  "prepare_training_regex_features s b = fetch_regex_features s b True"


definition load_nlu :: "store \<Rightarrow> string \<Rightarrow> regex_elements TrainingData" where
  "load_nlu s b =
     \<lparr>td_training_examples = prepare_training_examples s b,
      td_entity_synonyms = prepare_training_synonyms s b,
      td_lookup_tables = prepare_training_lookup_tables s b,
      td_regex_features = prepare_training_regex_features s b\<rparr>"





section \<open>Bot data repository: domain\<close>

text \<open>
  The four name collections are read through a group on \<^verbatim>\<open>$bot\<close>; the query is already
  restricted to one bot, so the result has at most one group, and
  \<^verbatim>\<open>__prepare_training_*\<close> takes the names of the first group or the empty list.
\<close>

definition fetch_intents :: "store \<Rightarrow> string \<Rightarrow> bool \<Rightarrow> (string \<times> string list) list" where
  "fetch_intents s b st = aggregate_group bot it_name (objects_bot_status b st (col_Intents s))"

definition prepare_training_intents :: "store \<Rightarrow> string \<Rightarrow> string list" where
  "prepare_training_intents s b =
     (case fetch_intents s b True of [] \<Rightarrow> [] | intents # rest \<Rightarrow> snd intents)"

definition fetch_domain_entities :: "store \<Rightarrow> string \<Rightarrow> bool \<Rightarrow> (string \<times> string list) list" where
  "fetch_domain_entities s b st = aggregate_group bot en_name (objects_bot_status b st (col_Entities s))"

definition prepare_training_domain_entities :: "store \<Rightarrow> string \<Rightarrow> string list" where
  "prepare_training_domain_entities s b =
     (case fetch_domain_entities s b True of [] \<Rightarrow> [] | entities # rest \<Rightarrow> snd entities)"

definition extract_domain_entities :: "string list \<Rightarrow> string \<Rightarrow> string \<Rightarrow> nat \<Rightarrow> Entities list" where
  "extract_domain_entities entities b u now =
     map (\<lambda>entity. \<lparr>oid = 0, bot = b, user = u, timestamp = now, status = True, en_name = entity\<rparr>)
       entities"

definition save_domain_entities :: "string list \<Rightarrow> string \<Rightarrow> string \<Rightarrow> nat \<Rightarrow> store \<Rightarrow> unit outcome" where
  "save_domain_entities entities b u now s =
     (if entities \<noteq> [] then
        (let saved_entities = prepare_training_domain_entities s b;
             new_entities = filter (\<lambda>entity. en_name entity \<notin> set saved_entities)
                              (extract_domain_entities entities b u now)
         in if new_entities \<noteq> []
            then objects_insert col_Entities_update (checked Entities_validate) new_entities s
            else (Inr (), s))
      else (Inr (), s))"

definition fetch_forms :: "store \<Rightarrow> string \<Rightarrow> bool \<Rightarrow> (string \<times> string list) list" where
  "fetch_forms s b st = aggregate_group bot fm_name (objects_bot_status b st (col_Forms s))"

definition prepare_training_forms :: "store \<Rightarrow> string \<Rightarrow> string list" where
  "prepare_training_forms s b =
     (case fetch_forms s b True of [] \<Rightarrow> [] | forms # rest \<Rightarrow> snd forms)"

definition fetch_actions :: "store \<Rightarrow> string \<Rightarrow> bool \<Rightarrow> (string \<times> string list) list" where
  "fetch_actions s b st = aggregate_group bot ac_name (objects_bot_status b st (col_Actions s))"

definition prepare_training_actions :: "store \<Rightarrow> string \<Rightarrow> string list" where
  "prepare_training_actions s b =
     (case fetch_actions s b True of [] \<Rightarrow> [] | actions # rest \<Rightarrow> snd actions)"

text \<open>
  The session configuration of rasa, \<^verbatim>\<open>SessionConfig(session_expiration_time,
  carry_over_slots)\<close>, and its \<^verbatim>\<open>default()\<close>: sixty minutes, slots carried over.
\<close>

record SessionConfig =
  session_expiration_time :: int
  carry_over_slots :: bool

definition SessionConfig_default :: SessionConfig where
  "SessionConfig_default = \<lparr>session_expiration_time = 60, carry_over_slots = True\<rparr>"

definition extract_session_config :: "SessionConfig \<Rightarrow> string \<Rightarrow> string \<Rightarrow> nat \<Rightarrow> SessionConfigs" where
  "extract_session_config session_config b u now =
     \<lparr>oid = 0, bot = b, user = u, timestamp = now,
      sc_sesssionExpirationTime = session_expiration_time session_config,
      sc_carryOverSlots = carry_over_slots session_config\<rparr>"

text \<open>
  The store refuses an insert with \<^verbatim>\<open>NotUniqueError\<close> when the new document repeats, in
  a field its class declares unique, the value of a stored one. \<^verbatim>\<open>SessionConfigs\<close>
  declares \<^verbatim>\<open>bot = StringField(required=True)\<close> and no \<^verbatim>\<open>meta\<close>: its list of unique
  fields is empty.
\<close>

definition violates_unique :: "('d \<Rightarrow> string) list \<Rightarrow> 'd list \<Rightarrow> 'd \<Rightarrow> bool" where
  "violates_unique unique_fields docs d =
     list_ex (\<lambda>field. list_ex (\<lambda>d'. field d' = field d) docs) unique_fields"

definition SessionConfigs_unique_fields :: "(SessionConfigs \<Rightarrow> string) list" where
  "SessionConfigs_unique_fields = []"

definition SessionConfigs_insert :: "SessionConfigs \<Rightarrow> store \<Rightarrow> unit outcome" where
  "SessionConfigs_insert doc s =
     (if violates_unique SessionConfigs_unique_fields (col_SessionConfigs s) doc
      then (Inl NotUniqueError, s)
      else objects_insert col_SessionConfigs_update (checked SessionConfigs_validate) [doc] s)"

text \<open>
  \<^verbatim>\<open>__save_session_config\<close>: a \<^verbatim>\<open>NotUniqueError\<close> becomes the conflict message, any other
  exception "Internal Server Error". A \<^verbatim>\<open>SessionConfig\<close> is a non-empty tuple and so
  truthy; \<open>None\<close> is the absent argument.
\<close>

definition save_session_config :: "SessionConfig option \<Rightarrow> string \<Rightarrow> string \<Rightarrow> nat \<Rightarrow> store \<Rightarrow> unit outcome" where
  "save_session_config session_config b u now s =
     (case session_config of
        None \<Rightarrow> (Inr (), s)
      | Some sc \<Rightarrow>
          (case SessionConfigs_insert (extract_session_config sc b u now) s of
             (Inl NotUniqueError, s') \<Rightarrow> (Inl (Exception ''Session Config already exist for the bot''), s')
           | (Inl e, s') \<Rightarrow> (Inl (Exception ''Internal Server Error''), s')
           | (Inr u, s') \<Rightarrow> (Inr (), s')))"

definition fetch_session_config :: "store \<Rightarrow> string \<Rightarrow> error + SessionConfigs option" where
  "fetch_session_config s b =
     (case objects_get (\<lambda>d. bot d = b) (col_SessionConfigs s) of
        Inl DoesNotExist \<Rightarrow> Inr None
      | Inl e \<Rightarrow> Inl e
      | Inr session_config \<Rightarrow> Inr (Some session_config))"

definition prepare_training_session_config :: "store \<Rightarrow> string \<Rightarrow> error + SessionConfig" where
  "prepare_training_session_config s b =
     (case fetch_session_config s b of
        Inl e \<Rightarrow> Inl e
      | Inr (Some session_config) \<Rightarrow>
          Inr \<lparr>session_expiration_time = sc_sesssionExpirationTime session_config,
               carry_over_slots = sc_carryOverSlots session_config\<rparr>
      | Inr None \<Rightarrow>
          (let default_session = SessionConfig_default
           in Inr \<lparr>session_expiration_time = session_expiration_time default_session,
                   carry_over_slots = carry_over_slots default_session\<rparr>))"

text \<open>
  Responses are grouped by name; \<^verbatim>\<open>$push\<close> leaves out a field a document does not have,
  so a group lists the texts of its documents and then their custom blocks.
\<close>

datatype response_value = ResponseTextValue ResponseText | ResponseCustomValue ResponseCustom

definition fetch_responses :: "store \<Rightarrow> string \<Rightarrow> bool \<Rightarrow> (string \<times> response_value list) list list" where
  "fetch_responses s b st =
     map (\<lambda>(key, docs).
            [(key, map ResponseTextValue (List.map_filter rs_text docs) @
                   map ResponseCustomValue (List.map_filter rs_custom docs))])
       (aggregate_group rs_name (\<lambda>d. d) (objects_bot_status b st (col_Responses s)))"

definition prepare_training_responses :: "store \<Rightarrow> string \<Rightarrow> (string \<times> response_value list) list" where
  "prepare_training_responses s b = dict_ChainMap (fetch_responses s b True)"

definition fetch_slot_names :: "store \<Rightarrow> string \<Rightarrow> string list" where
  "fetch_slot_names s b =
     (case aggregate_group bot sl_name (objects_bot b (col_Slots s)) of
        [] \<Rightarrow> []
      | saved_slots # rest \<Rightarrow> snd saved_slots)"

definition fetch_slots :: "store \<Rightarrow> string \<Rightarrow> bool \<Rightarrow> Slots list" where
  "fetch_slots s b st = objects_bot_status b st (col_Slots s)"

text \<open>The slot objects of rasa that \<^verbatim>\<open>__prepare_training_slots\<close> builds, as plain data.\<close>

datatype Slot =
    FloatSlot string json "int option" bool "pynum option" "pynum option"
  | CategoricalSlot string json "int option" bool "string list"
  | TextSlot string json "int option" bool
  | BooleanSlot string json "int option" bool
  | ListSlot string json "int option" bool
  | UnfeaturizedSlot string json "int option" bool

definition prepare_slot :: "Slots \<Rightarrow> Slot list" where
  "prepare_slot slot =
     (if sl_type slot = FloatSlot_type_name then
        [FloatSlot (sl_name slot) (sl_initial_value slot) (sl_value_reset_delay slot)
           (sl_auto_fill slot) (sl_min_value slot) (sl_max_value slot)]
      else if sl_type slot = CategoricalSlot_type_name then
        [CategoricalSlot (sl_name slot) (sl_initial_value slot) (sl_value_reset_delay slot)
           (sl_auto_fill slot) (sl_values slot)]
      else if sl_type slot = TextSlot_type_name then
        [TextSlot (sl_name slot) (sl_initial_value slot) (sl_value_reset_delay slot) (sl_auto_fill slot)]
      else if sl_type slot = BooleanSlot_type_name then
        [BooleanSlot (sl_name slot) (sl_initial_value slot) (sl_value_reset_delay slot) (sl_auto_fill slot)]
      else if sl_type slot = ListSlot_type_name then
        [ListSlot (sl_name slot) (sl_initial_value slot) (sl_value_reset_delay slot) (sl_auto_fill slot)]
      else if sl_type slot = UnfeaturizedSlot_type_name then
        [UnfeaturizedSlot (sl_name slot) (sl_initial_value slot) (sl_value_reset_delay slot)
           (sl_auto_fill slot)]
      else [])"

definition prepare_training_slots :: "store \<Rightarrow> string \<Rightarrow> Slot list" where
  "prepare_training_slots s b = concat (map prepare_slot (fetch_slots s b True))"

text \<open>
  \<^verbatim>\<open>load_domain\<close> hands this dict to \<^verbatim>\<open>Domain.from_dict\<close> of rasa; the model returns the
  dict. Of its entries only the session configuration can raise.
\<close>

record domain_dict =
  dd_intents :: "string list"
  dd_actions :: "string list"
  dd_slots :: "Slot list"
  dd_session_config :: SessionConfig
  dd_responses :: "(string \<times> response_value list) list"
  dd_forms :: "string list"
  dd_entities :: "string list"

definition load_domain :: "store \<Rightarrow> string \<Rightarrow> error + domain_dict" where
  "load_domain s b =
     (case prepare_training_session_config s b of
        Inl e \<Rightarrow> Inl e
      | Inr session_config \<Rightarrow>
          Inr \<lparr>dd_intents = prepare_training_intents s b,
               dd_actions = prepare_training_actions s b,
               dd_slots = prepare_training_slots s b,
               dd_session_config = session_config,
               dd_responses = prepare_training_responses s b,
               dd_forms = prepare_training_forms s b,
               dd_entities = prepare_training_domain_entities s b\<rparr>)"

section \<open>Bot data repository: stories and configuration\<close>

text \<open>
  A story step of rasa: its block name, its events and, when the repository builds it,
  the start checkpoint \<^verbatim>\<open>Checkpoint(STORY_START)\<close>.
\<close>

record StoryStep =
  ss_block_name :: string
  ss_events :: "Event list"
  ss_start_checkpoints :: "string list"

definition STORY_START :: string where
  "STORY_START = ''STORY_START''"

text \<open>
  \<^verbatim>\<open>__extract_story_events\<close> turns every user utterance and every executed action into a
  \<^verbatim>\<open>StoryEvents\<close> document and drops any other event.
\<close>

fun extract_story_events :: "Event list \<Rightarrow> StoryEvents list" where
  "extract_story_events [] = []"
| "extract_story_events (UserUttered t intent ts # events) =
     \<lparr>se_name = t, se_type = type_name (UserUttered t intent ts)\<rparr> # extract_story_events events"
| "extract_story_events (ActionExecuted action_name ts # events) =
     \<lparr>se_name = action_name, se_type = type_name (ActionExecuted action_name ts)\<rparr>
       # extract_story_events events"
| "extract_story_events (OtherEvent # events) = extract_story_events events"

definition extract_story_step :: "StoryStep list \<Rightarrow> string \<Rightarrow> string \<Rightarrow> nat \<Rightarrow> Stories list" where
  "extract_story_step story_steps b u now =
     map (\<lambda>story_step.
            (let story_events = extract_story_events (ss_events story_step)
             in \<lparr>oid = 0, bot = b, user = u, timestamp = now, status = True,
                 st_block_name = ss_block_name story_step,
                 st_events = map StoryEventsDoc story_events\<rparr>)) story_steps"

definition save_stories :: "StoryStep list \<Rightarrow> string \<Rightarrow> string \<Rightarrow> nat \<Rightarrow> store \<Rightarrow> unit outcome" where
  "save_stories story_steps b u now s =
     (if story_steps \<noteq> [] then
        objects_insert col_Stories_update (checked Stories_validate)
          (extract_story_step story_steps b u now) s
      else (Inr (), s))"

text \<open>
  \<^verbatim>\<open>__prepare_training_story_events\<close> reads \<^verbatim>\<open>event.type\<close> and \<^verbatim>\<open>event.name\<close>, which an
  embedded \<^verbatim>\<open>StoryEvents\<close> document has and an event object of rasa has not.
\<close>

fun prepare_training_story_events :: "event_obj list \<Rightarrow> nat \<Rightarrow> error + Event list" where
  "prepare_training_story_events [] ts = Inr []"
| "prepare_training_story_events (RasaEvent e # events) ts = Inl AttributeError"
| "prepare_training_story_events (StoryEventsDoc event # events) ts =
     (case prepare_training_story_events events ts of
        Inl e \<Rightarrow> Inl e
      | Inr rest \<Rightarrow>
          if se_type event = ''user''
          then Inr (UserUttered (se_name event) (Some (se_name event, 1)) (Some ts) # rest)
          else if se_type event = ''action''
          then Inr (ActionExecuted (se_name event) (Some ts) # rest)
          else Inr rest)"

definition fetch_stories :: "store \<Rightarrow> string \<Rightarrow> bool \<Rightarrow> Stories list" where
  "fetch_stories s b st = objects_bot_status b st (col_Stories s)"

text \<open>
  Each stored story is stamped with the wall clock read when it is rebuilt:
  \<open>clock i\<close> is the reading for the \<open>i\<close>-th story of the result.
\<close>

fun prepare_training_story_step :: "Stories list \<Rightarrow> (nat \<Rightarrow> nat) \<Rightarrow> nat \<Rightarrow> error + StoryStep list" where
  "prepare_training_story_step [] clock i = Inr []"
| "prepare_training_story_step (story # stories) clock i =
     (case prepare_training_story_events (st_events story) (clock i) of
        Inl e \<Rightarrow> Inl e
      | Inr story_events \<Rightarrow>
          (case prepare_training_story_step stories clock (Suc i) of
             Inl e \<Rightarrow> Inl e
           | Inr steps \<Rightarrow>
               Inr (\<lparr>ss_block_name = st_block_name story, ss_events = story_events,
                     ss_start_checkpoints = [STORY_START]\<rparr> # steps)))"

definition load_stories :: "store \<Rightarrow> string \<Rightarrow> (nat \<Rightarrow> nat) \<Rightarrow> error + StoryStep list" where
  "load_stories s b clock =
     prepare_training_story_step (objects_bot_status b True (col_Stories s)) clock 0"

text \<open>
  \<^verbatim>\<open>fetch_configs\<close> gets the one \<^verbatim>\<open>Configs\<close> document of the bot, whatever its status, and
  falls back to the template file, here \<open>template\<close>, when there is none.
  \<^verbatim>\<open>load_config\<close> keeps the three keys below.
\<close>

record config_dict =
  cd_language :: string
  cd_pipeline :: "json list"
  cd_policies :: "json list"

definition fetch_configs :: "Configs \<Rightarrow> store \<Rightarrow> string \<Rightarrow> error + Configs" where
  "fetch_configs template s b =
     (case objects_get (\<lambda>d. bot d = b) (col_Configs s) of
        Inl DoesNotExist \<Rightarrow> Inr template
      | Inl e \<Rightarrow> Inl e
      | Inr configs \<Rightarrow> Inr configs)"

definition load_config :: "Configs \<Rightarrow> store \<Rightarrow> string \<Rightarrow> error + config_dict" where
  "load_config template s b =
     (case fetch_configs template s b of
        Inl e \<Rightarrow> Inl e
      | Inr configs \<Rightarrow>
          Inr \<lparr>cd_language = cf_language configs, cd_pipeline = cf_pipeline configs,
               cd_policies = cf_policies configs\<rparr>)"

section \<open>Bot data repository: single items and soft delete\<close>

text \<open>
  \<^verbatim>\<open>__isExist\<close> counts the documents of the bot that match the raw query, here a
  predicate on the document; the query names no status. It raises, or returns
  \<^verbatim>\<open>True\<close>, \<^verbatim>\<open>False\<close> or, falling off its end, \<^verbatim>\<open>None\<close>.
\<close>

definition isExist ::
  "'a Document_scheme list \<Rightarrow> string \<Rightarrow> ('a Document_scheme \<Rightarrow> bool) \<Rightarrow> string \<Rightarrow> bool \<Rightarrow>
   error + bool option" where
  "isExist documents b query exp_message raise_error =
     (let doc = filter (\<lambda>d. bot d = b \<and> query d) documents
      in if length doc \<noteq> 0 then
           (if raise_error then
              (if check_empty_string exp_message
               then Inl (Exception ''Exception message cannot be empty'')
               else Inl (Exception exp_message))
            else Inr (Some True))
         else (if \<not> raise_error then Inr (Some False) else Inr None))"

text \<open>\<^verbatim>\<open>__prepare_document_list\<close>: the key and one field of each document.\<close>

definition prepare_document_list :: "'d list \<Rightarrow> ('d \<Rightarrow> nat) \<Rightarrow> ('d \<Rightarrow> 'v) \<Rightarrow> (nat \<times> 'v) list" where
  "prepare_document_list documents ident field = map (\<lambda>document. (ident document, field document)) documents"

definition add_intent :: "string \<Rightarrow> string \<Rightarrow> string \<Rightarrow> nat \<Rightarrow> store \<Rightarrow> unit outcome" where
  "add_intent text b u now s =
     (case isExist (col_Intents s) b (\<lambda>d. it_name d = text) ''Intent already exist!'' True of
        Inl e \<Rightarrow> (Inl e, s)
      | Inr r \<Rightarrow>
          document_save col_Intents_update (checked Intents_validate)
            \<lparr>oid = 0, bot = b, user = u, timestamp = now, status = True, it_name = text\<rparr> s)"

definition get_intents :: "store \<Rightarrow> string \<Rightarrow> (nat \<times> string) list" where
  "get_intents s b = prepare_document_list (objects_bot b (col_Intents s)) oid it_name"

definition new_text_slot :: "string \<Rightarrow> string \<Rightarrow> string \<Rightarrow> nat \<Rightarrow> Slots" where
  "new_text_slot name b u now =
     \<lparr>oid = 0, bot = b, user = u, timestamp = now, status = True,
      sl_name = name, sl_type = ''text'', sl_initial_value = JNull, sl_value_reset_delay = None,
      sl_auto_fill = True, sl_value = None, sl_values = [], sl_max_value = None,
      sl_min_value = None\<rparr>"

definition add_slots_from_entities :: "string list \<Rightarrow> string \<Rightarrow> string \<Rightarrow> nat \<Rightarrow> store \<Rightarrow> unit outcome" where
  "add_slots_from_entities entities b u now s =
     (let slot_name_list = fetch_slot_names s b;
          slots = map (\<lambda>entity. new_text_slot entity b u now)
                    (filter (\<lambda>entity. entity \<notin> set slot_name_list) entities)
      in if slots \<noteq> [] then objects_insert col_Slots_update Slots_validate slots s
         else (Inr (), s))"

text \<open>
  \<^verbatim>\<open>add_training_example\<close>. The two functions of rasa's markdown reader it calls are
  parameters: \<open>find_entities\<close> is \<^verbatim>\<open>MarkdownReader._find_entities_in_training_example\<close>
  and \<open>strip_markup\<close> the substitution of \<^verbatim>\<open>ent_regex\<close> by the entity text.
\<close>

definition add_training_example ::
  "(string \<Rightarrow> Entity list) \<Rightarrow> (string \<Rightarrow> string) \<Rightarrow>
   string \<Rightarrow> string \<Rightarrow> string \<Rightarrow> string \<Rightarrow> nat \<Rightarrow> store \<Rightarrow> unit outcome" where
  "add_training_example find_entities strip_markup example intent b u now s =
     (case isExist (col_TrainingExamples s) b (\<lambda>d. te_text d = example)
             ''Training Example already exist!'' True of
        Inl e \<Rightarrow> (Inl e, s)
      | Inr r \<Rightarrow>
          and_then
            (case isExist (col_Intents s) b (\<lambda>d. it_name d = intent) [] False of
               Inl e \<Rightarrow> (Inl e, s)
             | Inr (Some True) \<Rightarrow> (Inr (), s)
             | Inr r' \<Rightarrow>
                 document_save col_Intents_update (checked Intents_validate)
                   \<lparr>oid = 0, bot = b, user = u, timestamp = now, status = True, it_name = intent\<rparr> s)
            (\<lambda>_ s1.
               (let training_example =
                      \<lparr>oid = 0, bot = b, user = u, timestamp = now, status = True,
                       te_intent = intent, te_text = example, te_entities = []\<rparr>;
                    entities = find_entities example
                in if \<not> check_empty_string example \<and> entities \<noteq> [] then
                     (let ext_entity = map ent_entity entities
                      in and_then (save_domain_entities ext_entity b u now s1) (\<lambda>_ s2.
                         and_then (add_slots_from_entities ext_entity b u now s2) (\<lambda>_ s3.
                           document_save col_TrainingExamples_update (checked TrainingExamples_validate)
                             (training_example\<lparr>te_text := strip_markup example,
                                te_entities := extract_entities entities\<rparr>) s3)))
                   else
                     document_save col_TrainingExamples_update (checked TrainingExamples_validate)
                       training_example s1)))"

text \<open>
  \<^verbatim>\<open>get_training_examples\<close> renders each text with \<^verbatim>\<open>Utility.prepare_nlu_text\<close>, which is
  not among the sources and is the parameter \<open>prepare_nlu_text\<close>.
\<close>

definition get_training_examples ::
  "(string \<Rightarrow> Entity list \<Rightarrow> string) \<Rightarrow> store \<Rightarrow> string \<Rightarrow> string \<Rightarrow> (nat \<times> string) list" where
  "get_training_examples prepare_nlu_text s intent b =
     map (\<lambda>training_example.
            (oid training_example,
             prepare_nlu_text (te_text training_example) (te_entities training_example)))
       (filter (\<lambda>d. bot d = b \<and> te_intent d = intent) (col_TrainingExamples s))"

definition add_entity :: "string \<Rightarrow> string \<Rightarrow> string \<Rightarrow> nat \<Rightarrow> store \<Rightarrow> unit outcome" where
  "add_entity name b u now s =
     (case isExist (col_Entities s) b (\<lambda>d. en_name d = name) ''Entity already exist!'' True of
        Inl e \<Rightarrow> (Inl e, s)
      | Inr r \<Rightarrow>
          and_then
            (document_save col_Entities_update (checked Entities_validate)
               \<lparr>oid = 0, bot = b, user = u, timestamp = now, status = True, en_name = name\<rparr> s)
            (\<lambda>_ s1.
               case isExist (col_Slots s1) b (\<lambda>d. sl_name d = name) [] False of
                 Inl e \<Rightarrow> (Inl e, s1)
               | Inr (Some True) \<Rightarrow> (Inr (), s1)
               | Inr r' \<Rightarrow> document_save col_Slots_update Slots_validate (new_text_slot name b u now) s1))"

definition get_entities :: "store \<Rightarrow> string \<Rightarrow> (nat \<times> string) list" where
  "get_entities s b = prepare_document_list (objects_bot b (col_Entities s)) oid en_name"

definition add_action :: "string \<Rightarrow> string \<Rightarrow> string \<Rightarrow> nat \<Rightarrow> store \<Rightarrow> unit outcome" where
  "add_action name b u now s =
     (case isExist (col_Actions s) b (\<lambda>d. ac_name d = name) ''Entity already exist!'' True of
        Inl e \<Rightarrow> (Inl e, s)
      | Inr r \<Rightarrow>
          document_save col_Actions_update (checked Actions_validate)
            \<lparr>oid = 0, bot = b, user = u, timestamp = now, status = True, ac_name = name\<rparr> s)"

definition get_actions :: "store \<Rightarrow> string \<Rightarrow> (nat \<times> string) list" where
  "get_actions s b = prepare_document_list (objects_bot b (col_Actions s)) oid ac_name"

text \<open>
  \<^verbatim>\<open>remove_document(document, id)\<close>. The argument \<^verbatim>\<open>document\<close> is a document class; the
  classes below are those that declare \<open>status\<close>. \<^verbatim>\<open>doc.update(status=False)\<close> rewrites
  the status of the stored document that has the key of \<^verbatim>\<open>doc\<close>. \<open>try_remove\<close> is
  the body of the \<^verbatim>\<open>try\<close>; both handlers raise the same message.
\<close>

datatype document_class =
    C_TrainingExamples | C_EntitySynonyms | C_LookupTables | C_RegexFeatures | C_Intents
  | C_Entities | C_Forms | C_Responses | C_Actions | C_Slots | C_Stories | C_Configs

fun update_status :: "nat \<Rightarrow> bool \<Rightarrow> 'a StatusDocument_scheme list \<Rightarrow> 'a StatusDocument_scheme list" where
  "update_status i st [] = []"
| "update_status i st (d # ds) =
     (if oid d = i then d\<lparr>status := st\<rparr> # ds else d # update_status i st ds)"

definition get_and_update ::
  "(store \<Rightarrow> 'a StatusDocument_scheme list) \<Rightarrow>
   (('a StatusDocument_scheme list \<Rightarrow> 'a StatusDocument_scheme list) \<Rightarrow> store \<Rightarrow> store) \<Rightarrow>
   nat \<Rightarrow> store \<Rightarrow> unit outcome" where
  "get_and_update col col_update i s =
     (case objects_get (\<lambda>d. oid d = i) (col s) of
        Inl e \<Rightarrow> (Inl e, s)
      | Inr doc \<Rightarrow> (Inr (), col_update (update_status (oid doc) False) s))"

definition try_remove :: "document_class \<Rightarrow> nat \<Rightarrow> store \<Rightarrow> unit outcome" where
  "try_remove document i s =
     (case document of
        C_TrainingExamples \<Rightarrow> get_and_update col_TrainingExamples col_TrainingExamples_update i s
      | C_EntitySynonyms \<Rightarrow> get_and_update col_EntitySynonyms col_EntitySynonyms_update i s
      | C_LookupTables \<Rightarrow> get_and_update col_LookupTables col_LookupTables_update i s
      | C_RegexFeatures \<Rightarrow> get_and_update col_RegexFeatures col_RegexFeatures_update i s
      | C_Intents \<Rightarrow> get_and_update col_Intents col_Intents_update i s
      | C_Entities \<Rightarrow> get_and_update col_Entities col_Entities_update i s
      | C_Forms \<Rightarrow> get_and_update col_Forms col_Forms_update i s
      | C_Responses \<Rightarrow> get_and_update col_Responses col_Responses_update i s
      | C_Actions \<Rightarrow> get_and_update col_Actions col_Actions_update i s
      | C_Slots \<Rightarrow> get_and_update col_Slots col_Slots_update i s
      | C_Stories \<Rightarrow> get_and_update col_Stories col_Stories_update i s
      | C_Configs \<Rightarrow> get_and_update col_Configs col_Configs_update i s)"

definition remove_document :: "document_class \<Rightarrow> nat \<Rightarrow> store \<Rightarrow> unit outcome" where
  "remove_document document i s =
     (case try_remove document i s of
        (Inl DoesNotExist, s') \<Rightarrow> (Inl (Exception ''Unable to remove document''), s')
      | (Inl e, s') \<Rightarrow> (Inl (Exception ''Unable to remove document''), s')
      | (Inr u, s') \<Rightarrow> (Inr (), s'))"

text \<open>
  What a soft delete is meant to be, in the words of the spec: of the collection of the
  given class, the record with the given key has its status set to inactive, and
  nothing else changes. \<open>oids\<close> lists the keys of a collection; \<open>delete_record\<close> is
  the physical removal that never happens, against which a load is compared.
\<close>

definition inactivate :: "nat \<Rightarrow> 'a StatusDocument_scheme \<Rightarrow> 'a StatusDocument_scheme" where
  "inactivate i d = (if oid d = i then d\<lparr>status := False\<rparr> else d)"

definition oids :: "document_class \<Rightarrow> store \<Rightarrow> nat list" where
  "oids document s =
     (case document of
        C_TrainingExamples \<Rightarrow> map oid (col_TrainingExamples s)
      | C_EntitySynonyms \<Rightarrow> map oid (col_EntitySynonyms s)
      | C_LookupTables \<Rightarrow> map oid (col_LookupTables s)
      | C_RegexFeatures \<Rightarrow> map oid (col_RegexFeatures s)
      | C_Intents \<Rightarrow> map oid (col_Intents s)
      | C_Entities \<Rightarrow> map oid (col_Entities s)
      | C_Forms \<Rightarrow> map oid (col_Forms s)
      | C_Responses \<Rightarrow> map oid (col_Responses s)
      | C_Actions \<Rightarrow> map oid (col_Actions s)
      | C_Slots \<Rightarrow> map oid (col_Slots s)
      | C_Stories \<Rightarrow> map oid (col_Stories s)
      | C_Configs \<Rightarrow> map oid (col_Configs s))"

definition mark_inactive :: "document_class \<Rightarrow> nat \<Rightarrow> store \<Rightarrow> store" where
  "mark_inactive document i s =
     (case document of
        C_TrainingExamples \<Rightarrow> s\<lparr>col_TrainingExamples := map (inactivate i) (col_TrainingExamples s)\<rparr>
      | C_EntitySynonyms \<Rightarrow> s\<lparr>col_EntitySynonyms := map (inactivate i) (col_EntitySynonyms s)\<rparr>
      | C_LookupTables \<Rightarrow> s\<lparr>col_LookupTables := map (inactivate i) (col_LookupTables s)\<rparr>
      | C_RegexFeatures \<Rightarrow> s\<lparr>col_RegexFeatures := map (inactivate i) (col_RegexFeatures s)\<rparr>
      | C_Intents \<Rightarrow> s\<lparr>col_Intents := map (inactivate i) (col_Intents s)\<rparr>
      | C_Entities \<Rightarrow> s\<lparr>col_Entities := map (inactivate i) (col_Entities s)\<rparr>
      | C_Forms \<Rightarrow> s\<lparr>col_Forms := map (inactivate i) (col_Forms s)\<rparr>
      | C_Responses \<Rightarrow> s\<lparr>col_Responses := map (inactivate i) (col_Responses s)\<rparr>
      | C_Actions \<Rightarrow> s\<lparr>col_Actions := map (inactivate i) (col_Actions s)\<rparr>
      | C_Slots \<Rightarrow> s\<lparr>col_Slots := map (inactivate i) (col_Slots s)\<rparr>
      | C_Stories \<Rightarrow> s\<lparr>col_Stories := map (inactivate i) (col_Stories s)\<rparr>
      | C_Configs \<Rightarrow> s\<lparr>col_Configs := map (inactivate i) (col_Configs s)\<rparr>)"

definition delete_record :: "document_class \<Rightarrow> nat \<Rightarrow> store \<Rightarrow> store" where
  "delete_record document i s =
     (case document of
        C_TrainingExamples \<Rightarrow> s\<lparr>col_TrainingExamples := filter (\<lambda>d. oid d \<noteq> i) (col_TrainingExamples s)\<rparr>
      | C_EntitySynonyms \<Rightarrow> s\<lparr>col_EntitySynonyms := filter (\<lambda>d. oid d \<noteq> i) (col_EntitySynonyms s)\<rparr>
      | C_LookupTables \<Rightarrow> s\<lparr>col_LookupTables := filter (\<lambda>d. oid d \<noteq> i) (col_LookupTables s)\<rparr>
      | C_RegexFeatures \<Rightarrow> s\<lparr>col_RegexFeatures := filter (\<lambda>d. oid d \<noteq> i) (col_RegexFeatures s)\<rparr>
      | C_Intents \<Rightarrow> s\<lparr>col_Intents := filter (\<lambda>d. oid d \<noteq> i) (col_Intents s)\<rparr>
      | C_Entities \<Rightarrow> s\<lparr>col_Entities := filter (\<lambda>d. oid d \<noteq> i) (col_Entities s)\<rparr>
      | C_Forms \<Rightarrow> s\<lparr>col_Forms := filter (\<lambda>d. oid d \<noteq> i) (col_Forms s)\<rparr>
      | C_Responses \<Rightarrow> s\<lparr>col_Responses := filter (\<lambda>d. oid d \<noteq> i) (col_Responses s)\<rparr>
      | C_Actions \<Rightarrow> s\<lparr>col_Actions := filter (\<lambda>d. oid d \<noteq> i) (col_Actions s)\<rparr>
      | C_Slots \<Rightarrow> s\<lparr>col_Slots := filter (\<lambda>d. oid d \<noteq> i) (col_Slots s)\<rparr>
      | C_Stories \<Rightarrow> s\<lparr>col_Stories := filter (\<lambda>d. oid d \<noteq> i) (col_Stories s)\<rparr>
      | C_Configs \<Rightarrow> s\<lparr>col_Configs := filter (\<lambda>d. oid d \<noteq> i) (col_Configs s)\<rparr>)"

section \<open>WhatsApp channel (whatsapp.py)\<close>

text \<open>
  Reading a parsed JSON value the way the handler does. \<^verbatim>\<open>d.get(k)\<close> gives \<^verbatim>\<open>None\<close> for
  an absent key and exists on dicts only; \<^verbatim>\<open>obj[k]\<close> with a string key raises KeyError
  on a dict without the key and TypeError on anything that is not a dict; a dict
  indexed by a value that is not a string has no such key, or raises TypeError when
  the value is unhashable.
\<close>

definition bind_error :: "error + 'a \<Rightarrow> ('a \<Rightarrow> error + 'b) \<Rightarrow> error + 'b" where
  "bind_error r f = (case r of Inl e \<Rightarrow> Inl e | Inr x \<Rightarrow> f x)"

definition dict_get :: "(string \<times> json) list \<Rightarrow> string \<Rightarrow> json" where
  "dict_get d k = (case map_of d k of None \<Rightarrow> JNull | Some v \<Rightarrow> v)"

definition py_get :: "json \<Rightarrow> string \<Rightarrow> error + json" where
  "py_get obj k = (case obj of JObj d \<Rightarrow> Inr (dict_get d k) | _ \<Rightarrow> Inl AttributeError)"

definition getitem_str :: "json \<Rightarrow> string \<Rightarrow> error + json" where
  "getitem_str obj k =
     (case obj of
        JObj d \<Rightarrow> (case map_of d k of None \<Rightarrow> Inl (KeyError (JStr k)) | Some v \<Rightarrow> Inr v)
      | _ \<Rightarrow> Inl TypeError)"

definition dict_getitem :: "(string \<times> json) list \<Rightarrow> json \<Rightarrow> error + json" where
  "dict_getitem d key =
     (case key of
        JStr k \<Rightarrow> getitem_str (JObj d) k
      | JList xs \<Rightarrow> Inl TypeError
      | JObj kvs \<Rightarrow> Inl TypeError
      | _ \<Rightarrow> Inl (KeyError key))"

text \<open>\<^verbatim>\<open>d.update(other)\<close>: a key already there keeps its place, a new key goes to the end.\<close>

definition dict_update :: "(string \<times> json) list \<Rightarrow> (string \<times> json) list \<Rightarrow> (string \<times> json) list" where
  "dict_update d other = fold (\<lambda>(k, v). AList.update k v) other d"

text \<open>
  What the channel does to the outside, in order: the read receipt sent through the
  client and the user message handed to the agent of the bot. Logging is left out.
  \<^verbatim>\<open>ChannelTypes.WHATSAPP.value\<close>, a constant outside the sources, is the parameter
  \<open>whatsapp\<close>.
\<close>

record UserMessage =
  um_text :: json
  um_sender_id :: json
  um_input_channel :: string
  um_metadata :: "(string \<times> json) list"

datatype effect = MarkAsRead json | HandleMessage string UserMessage

definition handle_user_message ::
  "string \<Rightarrow> json \<Rightarrow> json \<Rightarrow> (string \<times> json) list \<Rightarrow> string \<Rightarrow> error + effect list" where
  "handle_user_message whatsapp text sender_id metadata b =
     bind_error (getitem_str (JObj metadata) ''id'') (\<lambda>msg_id.
       Inr [MarkAsRead msg_id,
            HandleMessage b \<lparr>um_text = text, um_sender_id = sender_id,
                             um_input_channel = whatsapp, um_metadata = metadata\<rparr>])"

text \<open>
  A replacement field of an f-string prints a string as it is; \<open>py_str\<close> stands for
  Python's \<^verbatim>\<open>str\<close> on every other value.
\<close>

definition format_field :: "(json \<Rightarrow> string) \<Rightarrow> json \<Rightarrow> string" where
  "format_field py_str v = (case v of JStr s \<Rightarrow> s | _ \<Rightarrow> py_str v)"

definition media_types :: "string list" where
  "media_types = [''image'', ''audio'', ''document'', ''video'', ''voice'']"

text \<open>
  \<^verbatim>\<open>Whatsapp.message\<close>. \<open>normalize\<close> is the \<^verbatim>\<open>if\<close>/\<^verbatim>\<open>elif\<close> chain: it yields the text and
  the message dict as the chain leaves it, or \<open>None\<close> where the chain returns early.
  Testing an unhashable value for membership in a set raises TypeError.
\<close>

definition normalize ::
  "(json \<Rightarrow> string) \<Rightarrow> (string \<times> json) list \<Rightarrow> error + (json \<times> (string \<times> json) list) option" where
  \<open>normalize py_str message =
     (if dict_get message ''type'' = JStr ''interactive'' then
        bind_error (py_get (dict_get message ''interactive'') ''type'') (\<lambda>interactive_type.
        bind_error (getitem_str (JObj message) ''interactive'') (\<lambda>interactive.
        bind_error (case interactive of JObj d \<Rightarrow> dict_getitem d interactive_type
                    | _ \<Rightarrow> Inl TypeError) (\<lambda>reply.
        bind_error (getitem_str reply ''id'') (\<lambda>text. Inr (Some (text, message))))))
      else if dict_get message ''type'' = JStr ''text'' then
        bind_error (getitem_str (JObj message) ''text'') (\<lambda>body_holder.
        bind_error (getitem_str body_holder ''body'') (\<lambda>text. Inr (Some (text, message))))
      else if dict_get message ''type'' = JStr ''button'' then
        bind_error (getitem_str (JObj message) ''button'') (\<lambda>button.
        bind_error (getitem_str button ''text'') (\<lambda>text. Inr (Some (text, message))))
      else
        (case dict_get message ''type'' of
           JList xs \<Rightarrow> Inl TypeError
         | JObj kvs \<Rightarrow> Inl TypeError
         | JStr t \<Rightarrow>
             if t \<in> set media_types then
               (let message1 = (if t = ''voice'' then AList.update ''type'' (JStr ''audio'') message
                                else message);
                    t1 = (if t = ''voice'' then ''audio'' else t)
                in bind_error (getitem_str (JObj message1) t1) (\<lambda>media.
                   bind_error (getitem_str media ''id'') (\<lambda>media_id.
                     Inr (Some (JStr (''/k_multimedia_msg{"'' @ t1 @ ''": "'' @
                                      format_field py_str media_id @ ''"}''), message1)))))
             else Inr None
         | _ \<Rightarrow> Inr None))\<close>

definition message ::
  "(json \<Rightarrow> string) \<Rightarrow> string \<Rightarrow> (string \<times> json) list \<Rightarrow> (string \<times> json) list option \<Rightarrow>
   string \<Rightarrow> error + effect list" where
  "message py_str whatsapp message0 metadata b =
     bind_error (normalize py_str message0) (\<lambda>r.
       case r of
         None \<Rightarrow> Inr []
       | Some (text, message1) \<Rightarrow>
           (case metadata of
              None \<Rightarrow> Inl TypeError
            | Some md \<Rightarrow>
                (let message2 = dict_update message1 md
                 in bind_error (getitem_str (JObj message2) ''from'') (\<lambda>sender.
                      handle_user_message whatsapp text sender message2 b))))"

text \<open>
  \<^verbatim>\<open>Whatsapp.handle_payload\<close>. The request is its parsed body and its headers; the
  event loop is the list of the callbacks it has been given and has not run yet, and
  \<^verbatim>\<open>spawn_callback\<close> appends one. \<^verbatim>\<open>MessengerHandler.validate_hub_signature\<close> is not
  among the sources and is the parameter \<open>validate_hub_signature\<close>.
\<close>

record request =
  rq_json :: json
  rq_headers :: "(string \<times> string) list"

datatype callback = handle_meta_payload json "(string \<times> json) list" string

definition handle_payload ::
  "(json \<Rightarrow> json \<Rightarrow> string \<Rightarrow> bool) \<Rightarrow> string \<Rightarrow> (string \<times> json) list \<Rightarrow>
   request \<Rightarrow> (string \<times> json) list option \<Rightarrow> string \<Rightarrow> callback list \<Rightarrow>
   error + (string \<times> callback list)" where
  "handle_payload validate_hub_signature whatsapp config req metadata b ioloop =
     (let msg = ''success'';
          payload = rq_json req;
          provider = (case map_of config ''bsp_type'' of None \<Rightarrow> JStr ''meta'' | Some p \<Rightarrow> p)
      in case metadata of
           None \<Rightarrow> Inl AttributeError
         | Some md \<Rightarrow>
             (let metadata1 = dict_update md [(''channel_type'', JStr whatsapp),
                                (''bsp_type'', provider), (''tabname'', JStr ''default'')];
                  signature = (case map_of (rq_headers req) ''X-Hub-Signature'' of
                                 None \<Rightarrow> [] | Some h \<Rightarrow> h);
                  spawn = Inr (msg, ioloop @ [handle_meta_payload payload metadata1 b])
              in if provider = JStr ''meta'' then
                   bind_error (getitem_str (JObj config) ''app_secret'') (\<lambda>app_secret.
                     if \<not> validate_hub_signature app_secret payload signature
                     then Inr (''not validated'', ioloop)
                     else spawn)
                 else spawn))"

text \<open>
  The signature the handler reads from the request, \<^verbatim>\<open>headers.get("X-Hub-Signature") or ""\<close>,
  and the metadata after the handler has put its three entries into it.
\<close>

definition header_signature :: "request \<Rightarrow> string" where
  "header_signature req =
     (case map_of (rq_headers req) ''X-Hub-Signature'' of None \<Rightarrow> [] | Some h \<Rightarrow> h)"

definition stamped_metadata :: "string \<Rightarrow> json \<Rightarrow> (string \<times> json) list \<Rightarrow> (string \<times> json) list" where
  "stamped_metadata whatsapp provider md =
     dict_update md [(''channel_type'', JStr whatsapp), (''bsp_type'', provider),
                     (''tabname'', JStr ''default'')]"

section \<open>Example data\<close>

text \<open>
  A store that holds, for the bot \<open>b\<close>, one soft-deleted training example, one
  soft-deleted intent, an entity and an action, and an active training example of
  another bot; and training data
  with two examples, two synonyms, two lookup tables of three entries and one regex
  feature.
\<close>

definition example_training_example :: TrainingExamples where
  "example_training_example =
     \<lparr>oid = 0, bot = ''b'', user = ''u'', timestamp = 1, status = False,
      te_intent = ''greet'', te_text = ''hello'', te_entities = []\<rparr>"

definition example_other_training_example :: TrainingExamples where
  "example_other_training_example =
     \<lparr>oid = 1, bot = ''other'', user = ''u'', timestamp = 2, status = True,
      te_intent = ''greet'', te_text = ''hi'', te_entities = []\<rparr>"

definition example_intent :: Intents where
  "example_intent =
     \<lparr>oid = 2, bot = ''b'', user = ''u'', timestamp = 3, status = False, it_name = ''bye''\<rparr>"

definition example_entity :: Entities where
  "example_entity =
     \<lparr>oid = 3, bot = ''b'', user = ''u'', timestamp = 4, status = True, en_name = ''city''\<rparr>"

definition example_action :: Actions where
  "example_action =
     \<lparr>oid = 4, bot = ''b'', user = ''u'', timestamp = 5, status = True, ac_name = ''utter_greet''\<rparr>"

definition example_store :: store where
  "example_store =
     \<lparr>col_TrainingExamples = [example_training_example, example_other_training_example],
      col_EntitySynonyms = [], col_LookupTables = [], col_RegexFeatures = [],
      col_Intents = [example_intent], col_Entities = [example_entity], col_Forms = [],
      col_Responses = [], col_Actions = [example_action], col_SessionConfigs = [],
      col_Slots = [], col_Stories = [], col_Configs = [], next_oid = 5\<rparr>"


text \<open>A story step that starts with an action and ends with a user utterance.\<close>

definition example_story_steps :: "StoryStep list" where
  "example_story_steps =
     [\<lparr>ss_block_name = ''greet path'',
       ss_events = [ActionExecuted ''utter_greet'' None, UserUttered ''greet'' None None],
       ss_start_checkpoints = []\<rparr>]"

text \<open>
  A stand-in for the signature check, used where a concrete one is needed: it accepts
  the header \<open>sha1=good\<close> for the secret \<open>s3cret\<close> and nothing else.
\<close>

definition example_validate_hub_signature :: "json \<Rightarrow> json \<Rightarrow> string \<Rightarrow> bool" where
  "example_validate_hub_signature app_secret payload signature =
     (app_secret = JStr ''s3cret'' \<and> signature = ''sha1=good'')"

text \<open>
  Stand-ins for the functions that are parameters of the model, used where concrete
  ones are needed: a text rendered as it is, and a text without entity markup.
\<close>

definition example_prepare_nlu_text :: "string \<Rightarrow> Entity list \<Rightarrow> string" where
  "example_prepare_nlu_text text entities = text"

definition example_find_entities :: "string \<Rightarrow> Entity list" where
  "example_find_entities text = []"

definition example_strip_markup :: "string \<Rightarrow> string" where
  "example_strip_markup text = text"


text \<open>
  A store with the configuration of the bot \<open>b\<close>, in French, and the template
  configuration that \<open>fetch_configs\<close> falls back to, in English.
\<close>

definition example_config :: Configs where
  "example_config =
     \<lparr>oid = 0, bot = ''b'', user = ''u'', timestamp = 1, status = True,
      cf_language = ''fr'', cf_pipeline = [], cf_policies = []\<rparr>"

definition example_template :: Configs where
  "example_template =
     \<lparr>oid = 0, bot = [], user = [], timestamp = 0, status = True,
      cf_language = ''en'', cf_pipeline = [], cf_policies = []\<rparr>"

definition config_store :: store where
  "config_store = empty_store\<lparr>col_Configs := [example_config], next_oid := 1\<rparr>"

section \<open>Facts about the store\<close>

lemma validate_docs_checked:
  "validate_docs (checked v) docs = Inr docs' \<Longrightarrow> docs' = docs"
  by (induction docs arbitrary: docs') (auto simp: checked_def split: sum.splits)

lemma objects_insert_checked_snd:
  "fst (objects_insert upd (checked v) docs s) = Inr () \<Longrightarrow>
   snd (objects_insert upd (checked v) docs s) =
     next_oid_update (\<lambda>n. n + length docs) (upd (\<lambda>old. old @ assign_oids (next_oid s) docs) s)"
  by (auto simp: objects_insert_def split: sum.splits dest: validate_docs_checked)

lemma and_then_fst:
  "fst (and_then r f) = Inr y \<Longrightarrow> \<exists>x. fst r = Inr x \<and> fst (f x (snd r)) = Inr y
      \<and> snd (and_then r f) = snd (f x (snd r))"
  by (auto simp: and_then_def split: prod.splits sum.splits)

lemma assign_oids_Nil: "assign_oids n [] = []"
  by (simp add: assign_oids_def)

lemma assign_oids_Cons: "assign_oids n (d # ds) = d\<lparr>oid := n\<rparr> # assign_oids (Suc n) ds"
  by (simp add: assign_oids_def)





lemma objects_bot_status_append:
  "objects_bot_status b st (xs @ ys) = objects_bot_status b st xs @ objects_bot_status b st ys"
  by (simp add: objects_bot_status_def)




















section \<open>Entity spans of a training example\<close>

lemma validate_entities_accepts:
  "validate_entities text ents = Inr () \<longleftrightarrow> list_all (entity_matches text) ents"
  by (induction ents) (simp_all add: entity_matches_def Let_def)

lemma validate_entities_rejects:
  "is_ValidationError (validate_entities text ents) \<longleftrightarrow> list_ex (\<lambda>e. \<not> entity_matches text e) ents"
  by (induction ents) (simp_all add: entity_matches_def Let_def is_ValidationError_def)

text \<open>
  C2. For a training example with a non-empty entity list, \<open>validate\<close> raises a
  ValidationError exactly when some entity has \<open>text[start:end] \<noteq> value\<close>, and
  returns normally (the record is accepted) exactly when every entity satisfies
  \<open>text[start:end] = value\<close>.
\<close>

theorem TrainingExamples_validate_entities:
  assumes "te_entities self \<noteq> []"
  shows "(is_ValidationError (TrainingExamples_validate self) \<longleftrightarrow>
            (\<exists>ent \<in> set (te_entities self).
               py_slice (te_text self) (ent_start ent) (ent_end ent) \<noteq> ent_value ent))
       \<and> (TrainingExamples_validate self = Inr () \<longleftrightarrow>
            (\<forall>ent \<in> set (te_entities self).
               py_slice (te_text self) (ent_start ent) (ent_end ent) = ent_value ent))"
  using assms
  by (simp add: TrainingExamples_validate_def validate_entities_accepts
        validate_entities_rejects list_all_iff list_ex_iff entity_matches_def)

theorem TrainingExamples_validate_entities_witness:
  "te_entities \<lparr>oid = 0, bot = ''b'', user = ''u'', timestamp = 0, status = True,
       te_intent = ''book'', te_text = ''fly to Pune'',
       te_entities = [\<lparr>ent_start = 7, ent_end = 11, ent_value = ''Pune'', ent_entity = ''city''\<rparr>]\<rparr> \<noteq> []
   \<and> TrainingExamples_validate \<lparr>oid = 0, bot = ''b'', user = ''u'', timestamp = 0, status = True,
       te_intent = ''book'', te_text = ''fly to Pune'',
       te_entities = [\<lparr>ent_start = 7, ent_end = 11, ent_value = ''Pune'', ent_entity = ''city''\<rparr>]\<rparr> = Inr ()
   \<and> is_ValidationError (TrainingExamples_validate \<lparr>oid = 0, bot = ''b'', user = ''u'', timestamp = 0,
       status = True, te_intent = ''book'', te_text = ''fly to Pune'',
       te_entities = [\<lparr>ent_start = 7, ent_end = 10, ent_value = ''Pune'', ent_entity = ''city''\<rparr>]\<rparr>)"
  using TrainingExamples_validate_entities
    [of "\<lparr>oid = 0, bot = ''b'', user = ''u'', timestamp = 0, status = True,
       te_intent = ''book'', te_text = ''fly to Pune'',
       te_entities = [\<lparr>ent_start = 7, ent_end = 11, ent_value = ''Pune'', ent_entity = ''city''\<rparr>]\<rparr>"]
    TrainingExamples_validate_entities
    [of "\<lparr>oid = 0, bot = ''b'', user = ''u'', timestamp = 0, status = True,
       te_intent = ''book'', te_text = ''fly to Pune'',
       te_entities = [\<lparr>ent_start = 7, ent_end = 10, ent_value = ''Pune'', ent_entity = ''city''\<rparr>]\<rparr>"]
  by (simp add: py_slice_def)

section \<open>Round trip of the training data\<close>





















section \<open>Validation of stories\<close>

text \<open>
  The two class tests of \<open>Stories_validate\<close> never fire on a story as the repository
  stores it, whatever its first and last events are.
\<close>

lemma Stories_validate_stored:
  "\<not> check_empty_string (st_block_name self) \<Longrightarrow> st_events self = map StoryEventsDoc evs \<Longrightarrow>
   evs \<noteq> [] \<Longrightarrow> Stories_validate self = Inr ()"
  by (cases evs) (auto simp: Stories_validate_def isinstance_UserUttered_def
        isinstance_ActionExecuted_def last_map)

text \<open>
  C3. The claim is that \<open>Stories.validate\<close> raises "Stories must start with intent" or
  "Stories must end with action" exactly when the first event is not a user event or
  the last is not an action. The code does not: the story step that starts with an
  action and ends with a user utterance is turned by \<open>extract_story_step\<close> into a
  document that \<open>Stories_validate\<close> accepts, and \<open>save_stories\<close> writes it; while a
  story whose first element is a \<open>UserUttered\<close> object, as the claim wants it, is
  rejected with "Stories must start with intent".
\<close>

theorem Stories_validate_inverted:
  "extract_story_step example_story_steps ''b'' ''u'' 7 =
     [\<lparr>oid = 0, bot = ''b'', user = ''u'', timestamp = 7, status = True,
       st_block_name = ''greet path'',
       st_events = [StoryEventsDoc \<lparr>se_name = ''utter_greet'', se_type = ''action''\<rparr>,
                    StoryEventsDoc \<lparr>se_name = ''greet'', se_type = ''user''\<rparr>]\<rparr>]
   \<and> Stories_validate \<lparr>oid = 0, bot = ''b'', user = ''u'', timestamp = 7, status = True,
       st_block_name = ''greet path'',
       st_events = [StoryEventsDoc \<lparr>se_name = ''utter_greet'', se_type = ''action''\<rparr>,
                    StoryEventsDoc \<lparr>se_name = ''greet'', se_type = ''user''\<rparr>]\<rparr> = Inr ()
   \<and> fst (save_stories example_story_steps ''b'' ''u'' 7 empty_store) = Inr ()
   \<and> Stories_validate \<lparr>oid = 0, bot = ''b'', user = ''u'', timestamp = 7, status = True,
       st_block_name = ''greet path'',
       st_events = [RasaEvent (UserUttered ''greet'' None None),
                    RasaEvent (ActionExecuted ''utter_greet'' None)]\<rparr>
       = Inl (ValidationError ''Stories must start with intent'')"
  by (simp add: example_story_steps_def extract_story_step_def type_name_def Stories_validate_def
        check_empty_string_def isinstance_UserUttered_def isinstance_ActionExecuted_def
        save_stories_def objects_insert_def checked_def)

section \<open>Normalisation of inbound messages\<close>

text \<open>
  What holds of \<open>message\<close>: a text payload yields its body, a payload of type
  \<open>audio\<close> the multimedia marker, a payload of an unknown type nothing and no error;
  and the branch is chosen by the declared type alone, so a button or interactive
  reply that also carries a \<open>text\<close> field is not read as plain text.
\<close>

lemma normalize_text:
  "normalize py_str [(''type'', JStr ''text''), (''text'', JObj [(''body'', JStr ''hello'')])] =
     Inr (Some (JStr ''hello'',
            [(''type'', JStr ''text''), (''text'', JObj [(''body'', JStr ''hello'')])]))"
  by (simp add: normalize_def bind_error_def dict_get_def getitem_str_def)

lemma message_text:
  "message py_str whatsapp
     [(''from'', JStr ''919876543210''), (''id'', JStr ''wamid.1''), (''type'', JStr ''text''),
      (''text'', JObj [(''body'', JStr ''hello'')])] (Some []) b
   = Inr [MarkAsRead (JStr ''wamid.1''),
          HandleMessage b \<lparr>um_text = JStr ''hello'', um_sender_id = JStr ''919876543210'',
            um_input_channel = whatsapp,
            um_metadata = [(''from'', JStr ''919876543210''), (''id'', JStr ''wamid.1''),
              (''type'', JStr ''text''), (''text'', JObj [(''body'', JStr ''hello'')])]\<rparr>]"
  by (simp add: message_def normalize_def bind_error_def dict_get_def getitem_str_def
        dict_update_def handle_user_message_def)

lemma message_audio:
  \<open>message py_str whatsapp
     [(''from'', JStr ''919876543210''), (''id'', JStr ''wamid.1''), (''type'', JStr ''audio''),
      (''audio'', JObj [(''id'', JStr ''abc'')])] (Some []) b
   = Inr [MarkAsRead (JStr ''wamid.1''),
          HandleMessage b \<lparr>um_text = JStr ''/k_multimedia_msg{"audio": "abc"}'',
            um_sender_id = JStr ''919876543210'', um_input_channel = whatsapp,
            um_metadata = [(''from'', JStr ''919876543210''), (''id'', JStr ''wamid.1''),
              (''type'', JStr ''audio''), (''audio'', JObj [(''id'', JStr ''abc'')])]\<rparr>]\<close>
  by (simp add: message_def normalize_def bind_error_def dict_get_def getitem_str_def
        dict_update_def handle_user_message_def media_types_def format_field_def Let_def)

lemma message_unknown_kind:
  "message py_str whatsapp [(''type'', JStr ''unknown_kind'')] metadata b = Inr []"
  by (simp add: message_def normalize_def bind_error_def dict_get_def media_types_def)

lemma normalize_button_with_text:
  "normalize py_str [(''type'', JStr ''button''), (''text'', JObj [(''body'', JStr ''ignored'')]),
      (''button'', JObj [(''text'', JStr ''Yes'')])] =
     Inr (Some (JStr ''Yes'', [(''type'', JStr ''button''),
       (''text'', JObj [(''body'', JStr ''ignored'')]), (''button'', JObj [(''text'', JStr ''Yes'')])]))"
  by (simp add: normalize_def bind_error_def dict_get_def getitem_str_def)

lemma normalize_interactive_with_text:
  "normalize py_str [(''type'', JStr ''interactive''), (''text'', JObj [(''body'', JStr ''ignored'')]),
      (''interactive'', JObj [(''type'', JStr ''button_reply''),
         (''button_reply'', JObj [(''id'', JStr ''/greet'')])])] =
     Inr (Some (JStr ''/greet'', [(''type'', JStr ''interactive''),
       (''text'', JObj [(''body'', JStr ''ignored'')]),
       (''interactive'', JObj [(''type'', JStr ''button_reply''),
         (''button_reply'', JObj [(''id'', JStr ''/greet'')])])]))"
  by (simp add: normalize_def bind_error_def dict_get_def py_get_def getitem_str_def
        dict_getitem_def)

text \<open>
  C4. The claim includes that the payload \<open>{"type": "voice", "voice": {"id": "abc"}}\<close>
  is aliased to audio and yields the marker that embeds \<open>{"audio": "abc"}\<close>. The code
  renames the type to \<open>audio\<close> and then reads the key \<open>audio\<close> of the payload, which
  holds its media under \<open>voice\<close>: it raises KeyError, whatever the metadata.
\<close>

theorem message_voice_KeyError:
  "message py_str whatsapp
     [(''type'', JStr ''voice''), (''voice'', JObj [(''id'', JStr ''abc'')])] metadata b
   = Inl (KeyError (JStr ''audio''))"
  by (simp add: message_def normalize_def bind_error_def dict_get_def getitem_str_def
        media_types_def Let_def)

section \<open>Webhook acknowledgment\<close>

text \<open>
  For a provider other than \<open>meta\<close> the handler checks no signature: it schedules the
  payload and acknowledges with "success".
\<close>

lemma handle_payload_other_provider:
  assumes "map_of config ''bsp_type'' = Some provider" and "provider \<noteq> JStr ''meta''"
  shows "handle_payload validate_hub_signature whatsapp config req (Some md) b ioloop =
           Inr (''success'',
                ioloop @ [handle_meta_payload (rq_json req) (stamped_metadata whatsapp provider md) b])"
  using assms
  by (simp add: handle_payload_def stamped_metadata_def Let_def)

text \<open>
  C5, as stated, fails: with a configured secret, the provider \<open>360dialog\<close> and a
  signature the check rejects, \<open>handle_payload\<close> returns "success" and schedules the
  processing of the payload.
\<close>

theorem handle_payload_other_provider_counterexample:
  "handle_payload example_validate_hub_signature ''whatsapp''
     [(''bsp_type'', JStr ''360dialog''), (''app_secret'', JStr ''s3cret'')]
     \<lparr>rq_json = JObj [(''entry'', JList [])], rq_headers = [(''X-Hub-Signature'', ''sha1=bad'')]\<rparr>
     (Some []) ''b'' []
   = Inr (''success'',
          [handle_meta_payload (JObj [(''entry'', JList [])])
             [(''channel_type'', JStr ''whatsapp''), (''bsp_type'', JStr ''360dialog''),
              (''tabname'', JStr ''default'')] ''b''])
   \<and> \<not> example_validate_hub_signature (JStr ''s3cret'') (JObj [(''entry'', JList [])]) ''sha1=bad''"
  by (simp add: handle_payload_def example_validate_hub_signature_def dict_update_def
        bind_error_def Let_def)

text \<open>
  C5, amended. When the provider of the channel is \<open>meta\<close> (\<open>bsp_type\<close> absent or
  \<open>meta\<close>) and a secret is configured, \<open>handle_payload\<close> returns "success" and appends
  the processing of the payload to the callbacks of the event loop when the signature
  check accepts the request, and returns "not validated" and leaves the event loop as
  it was when the check rejects it. In both cases the handler returns with the
  callback pending: it runs none of the message handling itself.
\<close>

theorem handle_payload_meta_signature:
  assumes "map_of config ''bsp_type'' = None \<or> map_of config ''bsp_type'' = Some (JStr ''meta'')"
    and "map_of config ''app_secret'' = Some app_secret"
  shows "handle_payload validate_hub_signature whatsapp config req (Some md) b ioloop =
           (if validate_hub_signature app_secret (rq_json req) (header_signature req)
            then Inr (''success'',
                   ioloop @ [handle_meta_payload (rq_json req)
                               (stamped_metadata whatsapp (JStr ''meta'') md) b])
            else Inr (''not validated'', ioloop))"
  using assms
  by (auto simp: handle_payload_def header_signature_def stamped_metadata_def bind_error_def
        getitem_str_def Let_def)

theorem handle_payload_meta_signature_witness:
  "(map_of [(''app_secret'', JStr ''s3cret'')] ''bsp_type'' = None
      \<or> map_of [(''app_secret'', JStr ''s3cret'')] ''bsp_type'' = Some (JStr ''meta''))
   \<and> map_of [(''app_secret'', JStr ''s3cret'')] ''app_secret'' = Some (JStr ''s3cret'')
   \<and> handle_payload example_validate_hub_signature ''whatsapp'' [(''app_secret'', JStr ''s3cret'')]
        \<lparr>rq_json = JObj [], rq_headers = [(''X-Hub-Signature'', ''sha1=good'')]\<rparr> (Some []) ''b'' []
       = Inr (''success'', [handle_meta_payload (JObj [])
            [(''channel_type'', JStr ''whatsapp''), (''bsp_type'', JStr ''meta''),
             (''tabname'', JStr ''default'')] ''b''])
   \<and> handle_payload example_validate_hub_signature ''whatsapp'' [(''app_secret'', JStr ''s3cret'')]
        \<lparr>rq_json = JObj [], rq_headers = [(''X-Hub-Signature'', ''sha1=bad'')]\<rparr> (Some []) ''b'' []
       = Inr (''not validated'', [])"
proof -
  have h1: "map_of [(''app_secret'', JStr ''s3cret'')] ''bsp_type'' = None
      \<or> map_of [(''app_secret'', JStr ''s3cret'')] ''bsp_type'' = Some (JStr ''meta'')"
    by simp
  have h2: "map_of [(''app_secret'', JStr ''s3cret'')] ''app_secret'' = Some (JStr ''s3cret'')"
    by simp
  show ?thesis
    using h1 h2
      handle_payload_meta_signature[OF h1 h2, of example_validate_hub_signature "''whatsapp''"
        "\<lparr>rq_json = JObj [], rq_headers = [(''X-Hub-Signature'', ''sha1=good'')]\<rparr>" "[]" "''b''" "[]"]
      handle_payload_meta_signature[OF h1 h2, of example_validate_hub_signature "''whatsapp''"
        "\<lparr>rq_json = JObj [], rq_headers = [(''X-Hub-Signature'', ''sha1=bad'')]\<rparr>" "[]" "''b''" "[]"]
    by (simp add: example_validate_hub_signature_def header_signature_def stamped_metadata_def
          dict_update_def)
qed

section \<open>Adding an intent twice\<close>

text \<open>
  The existence check looks at every document of the bot that matches the query,
  whatever its status.
\<close>

lemma isExist_found:
  "list_ex (\<lambda>d. bot d = b \<and> q d) docs \<Longrightarrow> \<not> check_empty_string msg \<Longrightarrow>
   isExist docs b q msg True = Inl (Exception msg)"
  by (simp add: isExist_def Let_def list_ex_iff filter_empty_conv)

lemma isExist_not_found:
  "\<not> list_ex (\<lambda>d. bot d = b \<and> q d) docs \<Longrightarrow> isExist docs b q msg True = Inr None"
  by (simp add: isExist_def Let_def list_ex_iff filter_empty_conv)

lemma isExist_raise_cases:
  "isExist docs b q msg True = Inr r \<Longrightarrow> \<not> list_ex (\<lambda>d. bot d = b \<and> q d) docs"
  by (auto simp: isExist_def Let_def list_ex_iff filter_empty_conv split: if_splits)

lemma add_intent_exists:
  "list_ex (\<lambda>d. bot d = b \<and> it_name d = name) (col_Intents s) \<Longrightarrow>
   add_intent name b u now s = (Inl (Exception ''Intent already exist!''), s)"
  by (simp add: add_intent_def isExist_found check_empty_string_def)

lemma add_intent_ok:
  assumes "fst (add_intent name b u now s) = Inr ()"
  shows "\<not> list_ex (\<lambda>d. bot d = b \<and> it_name d = name) (col_Intents s)"
    and "snd (add_intent name b u now s) =
           s\<lparr>col_Intents := col_Intents s @
                [\<lparr>oid = next_oid s, bot = b, user = u, timestamp = now, status = True, it_name = name\<rparr>],
             next_oid := next_oid s + 1\<rparr>"
proof -
  from assms obtain r where r: "isExist (col_Intents s) b (\<lambda>d. it_name d = name) ''Intent already exist!'' True = Inr r"
    by (auto simp: add_intent_def split: sum.splits)
  from isExist_raise_cases[OF r]
  show "\<not> list_ex (\<lambda>d. bot d = b \<and> it_name d = name) (col_Intents s)" .
  from assms r have "fst (objects_insert col_Intents_update (checked Intents_validate)
      [\<lparr>oid = 0, bot = b, user = u, timestamp = now, status = True, it_name = name\<rparr>] s) = Inr ()"
    by (simp add: add_intent_def document_save_def)
  from objects_insert_checked_snd[OF this] r
  show "snd (add_intent name b u now s) =
           s\<lparr>col_Intents := col_Intents s @
                [\<lparr>oid = next_oid s, bot = b, user = u, timestamp = now, status = True, it_name = name\<rparr>],
             next_oid := next_oid s + 1\<rparr>"
    by (simp add: add_intent_def document_save_def assign_oids_Cons assign_oids_Nil)
qed

text \<open>
  C6. \<open>add_intent\<close> for a name that the bot already has raises "Intent already
  exist!" and leaves the store as it was. So when a first \<open>add_intent\<close> of a name
  succeeds, a second one for the same bot and name fails with that error, and
  \<open>get_intents\<close> of the bot then lists exactly one record of that name.
\<close>

theorem add_intent_twice:
  "(list_ex (\<lambda>d. bot d = b \<and> it_name d = name) (col_Intents s) \<longrightarrow>
      add_intent name b u now s = (Inl (Exception ''Intent already exist!''), s))
   \<and> (fst (add_intent name b u now s) = Inr () \<longrightarrow>
        add_intent name b u' now' (snd (add_intent name b u now s)) =
          (Inl (Exception ''Intent already exist!''), snd (add_intent name b u now s))
        \<and> length (filter (\<lambda>r. snd r = name)
             (get_intents (snd (add_intent name b u' now' (snd (add_intent name b u now s)))) b)) = 1)"
proof (intro conjI impI)
  assume "list_ex (\<lambda>d. bot d = b \<and> it_name d = name) (col_Intents s)"
  then show "add_intent name b u now s = (Inl (Exception ''Intent already exist!''), s)"
    by (rule add_intent_exists)
next
  assume ok: "fst (add_intent name b u now s) = Inr ()"
  let ?s1 = "snd (add_intent name b u now s)"
  note none = add_intent_ok(1)[OF ok] and s1 = add_intent_ok(2)[OF ok]
  have "list_ex (\<lambda>d. bot d = b \<and> it_name d = name) (col_Intents ?s1)"
    by (simp add: s1)
  then show second: "add_intent name b u' now' ?s1 = (Inl (Exception ''Intent already exist!''), ?s1)"
    by (rule add_intent_exists)
  from none have "filter (\<lambda>d. it_name d = name) (filter (\<lambda>d. bot d = b) (col_Intents s)) = []"
    by (auto simp: list_ex_iff filter_empty_conv)
  then have "length (filter (\<lambda>r. snd r = name) (get_intents ?s1 b)) = 1"
    by (simp add: get_intents_def prepare_document_list_def objects_bot_def s1 filter_map comp_def)
  then show "length (filter (\<lambda>r. snd r = name) (get_intents (snd (add_intent name b u' now' ?s1)) b)) = 1"
    by (simp only: second snd_conv)
qed

theorem add_intent_twice_witness:
  "fst (add_intent ''greet'' ''b'' ''u'' 1 empty_store) = Inr ()
   \<and> add_intent ''greet'' ''b'' ''u'' 2 (snd (add_intent ''greet'' ''b'' ''u'' 1 empty_store)) =
       (Inl (Exception ''Intent already exist!''), snd (add_intent ''greet'' ''b'' ''u'' 1 empty_store))
   \<and> get_intents (snd (add_intent ''greet'' ''b'' ''u'' 2
        (snd (add_intent ''greet'' ''b'' ''u'' 1 empty_store)))) ''b'' = [(0, ''greet'')]
   \<and> list_ex (\<lambda>d. bot d = ''b'' \<and> it_name d = ''bye'') (col_Intents example_store)
   \<and> add_intent ''bye'' ''b'' ''u'' 9 example_store =
       (Inl (Exception ''Intent already exist!''), example_store)"
proof -
  have e: "list_ex (\<lambda>d. bot d = ''b'' \<and> it_name d = ''bye'') (col_Intents example_store)"
    by (simp add: example_store_def example_intent_def)
  from add_intent_twice[of "''b''" "''bye''" example_store "''u''" 9 "''u''" 9] e
  have third: "add_intent ''bye'' ''b'' ''u'' 9 example_store =
       (Inl (Exception ''Intent already exist!''), example_store)"
    by blast
  have h: "fst (add_intent ''greet'' ''b'' ''u'' 1 empty_store) = Inr ()"
    by (simp add: add_intent_def isExist_def document_save_def objects_insert_def checked_def
          Intents_validate_def check_empty_string_def empty_store_def)
  have s1: "snd (add_intent ''greet'' ''b'' ''u'' 1 empty_store) =
        empty_store\<lparr>col_Intents := [\<lparr>oid = 0, bot = ''b'', user = ''u'', timestamp = 1,
           status = True, it_name = ''greet''\<rparr>], next_oid := 1\<rparr>"
    by (simp add: add_intent_def isExist_def document_save_def objects_insert_def checked_def
          Intents_validate_def check_empty_string_def empty_store_def assign_oids_def)
  from add_intent_twice[of "''b''" "''greet''" empty_store "''u''" 1 "''u''" 2] h
  have second: "add_intent ''greet'' ''b'' ''u'' 2 (snd (add_intent ''greet'' ''b'' ''u'' 1 empty_store)) =
       (Inl (Exception ''Intent already exist!''), snd (add_intent ''greet'' ''b'' ''u'' 1 empty_store))"
    by blast
  have "get_intents (snd (add_intent ''greet'' ''b'' ''u'' 1 empty_store)) ''b'' = [(0, ''greet'')]"
    unfolding s1
    by (simp add: get_intents_def prepare_document_list_def objects_bot_def empty_store_def)
  with h second e third show ?thesis by (simp only: snd_conv simp_thms)
qed

section \<open>Soft delete\<close>

text \<open>
  \<open>update_status\<close> touches the status only: what does not read the status sees the
  collection as it was. A successful \<open>remove_document\<close> rewrites the collection of
  its class by \<open>update_status\<close>.
\<close>

lemma update_status_map_filter:
  assumes "\<And>x st. f (x\<lparr>status := st\<rparr>) = f x" and "\<And>x st. p (x\<lparr>status := st\<rparr>) = p x"
  shows "map f (filter p (update_status i st docs)) = map f (filter p docs)"
  by (induction docs) (simp_all add: assms)

lemma update_status_list_ex:
  assumes "\<And>x st. p (x\<lparr>status := st\<rparr>) = p x"
  shows "list_ex p (update_status i st docs) = list_ex p docs"
  by (induction docs) (simp_all add: assms)

lemma objects_get_Inr:
  "objects_get p docs = Inr d \<Longrightarrow> p d \<and> d \<in> set docs"
proof -
  assume "objects_get p docs = Inr d"
  then have "filter p docs = [d]"
    by (auto simp: objects_get_def split: list.splits)
  then have "d \<in> set (filter p docs)" by simp
  then show ?thesis by simp
qed

lemma get_and_update_ok:
  assumes "fst (get_and_update col upd i s) = Inr ()"
  shows "snd (get_and_update col upd i s) = upd (update_status i False) s"
proof -
  from assms obtain doc where d: "objects_get (\<lambda>d. oid d = i) (col s) = Inr doc"
    by (auto simp: get_and_update_def split: sum.splits)
  from objects_get_Inr[OF d] have "oid doc = i" by simp
  with d show ?thesis by (simp add: get_and_update_def)
qed

lemma remove_document_Intents_ok:
  "fst (remove_document C_Intents i s) = Inr () \<Longrightarrow>
   snd (remove_document C_Intents i s) = col_Intents_update (update_status i False) s"
  using get_and_update_ok[of col_Intents col_Intents_update i s]
  by (auto simp: remove_document_def try_remove_def split: prod.splits sum.splits error.splits)

lemma remove_document_Entities_ok:
  "fst (remove_document C_Entities i s) = Inr () \<Longrightarrow>
   snd (remove_document C_Entities i s) = col_Entities_update (update_status i False) s"
  using get_and_update_ok[of col_Entities col_Entities_update i s]
  by (auto simp: remove_document_def try_remove_def split: prod.splits sum.splits error.splits)

lemma remove_document_Actions_ok:
  "fst (remove_document C_Actions i s) = Inr () \<Longrightarrow>
   snd (remove_document C_Actions i s) = col_Actions_update (update_status i False) s"
  using get_and_update_ok[of col_Actions col_Actions_update i s]
  by (auto simp: remove_document_def try_remove_def split: prod.splits sum.splits error.splits)

lemma remove_document_TrainingExamples_ok:
  "fst (remove_document C_TrainingExamples i s) = Inr () \<Longrightarrow>
   snd (remove_document C_TrainingExamples i s) =
     col_TrainingExamples_update (update_status i False) s"
  using get_and_update_ok[of col_TrainingExamples col_TrainingExamples_update i s]
  by (auto simp: remove_document_def try_remove_def split: prod.splits sum.splits error.splits)

lemma update_status_marks:
  "d \<in> set docs \<Longrightarrow> list_ex (\<lambda>x. oid x = oid d \<and> \<not> status x) (update_status (oid d) False docs)"
  by (induction docs) auto

text \<open>
  When the keys of a collection are distinct, as the store keeps them,
  \<open>remove_document\<close> finds the record exactly when its key is there, and then the
  store it leaves is \<open>mark_inactive\<close> of the old one.
\<close>

lemma filter_unique_key:
  "distinct (map f xs) \<Longrightarrow> x \<in> set xs \<Longrightarrow> filter (\<lambda>y. f y = f x) xs = [x]"
proof (induction xs)
  case Nil
  then show ?case by simp
next
  case (Cons a xs)
  show ?case
  proof (cases "a = x")
    case True
    with Cons.prems have "\<forall>y \<in> set xs. f y \<noteq> f x" by (auto simp: image_iff)
    then have "filter (\<lambda>y. f y = f x) xs = []" by (simp add: filter_empty_conv)
    with True show ?thesis by simp
  next
    case False
    with Cons.prems have "x \<in> set xs" and "f a \<noteq> f x" by auto
    with Cons show ?thesis by simp
  qed
qed

lemma objects_get_by_oid:
  assumes "distinct (map oid docs)"
  shows "objects_get (\<lambda>d. oid d = i) docs =
           (if i \<in> set (map oid docs) then Inr (hd (filter (\<lambda>d. oid d = i) docs))
            else Inl DoesNotExist)"
proof (cases "i \<in> set (map oid docs)")
  case True
  then obtain x where x: "x \<in> set docs" "oid x = i" by auto
  from filter_unique_key[OF assms x(1)] x(2) have "filter (\<lambda>d. oid d = i) docs = [x]" by simp
  with True show ?thesis by (simp add: objects_get_def)
next
  case False
  then have "filter (\<lambda>d. oid d = i) docs = []" by (auto simp: filter_empty_conv)
  with False show ?thesis by (simp add: objects_get_def)
qed

lemma update_status_inactivate:
  "distinct (map oid docs) \<Longrightarrow> update_status i False docs = map (inactivate i) docs"
proof (induction docs)
  case Nil
  then show ?case by simp
next
  case (Cons d ds)
  show ?case
  proof (cases "oid d = i")
    case True
    with Cons.prems have "\<forall>x \<in> set ds. oid x \<noteq> i" by (auto simp: image_iff)
    then have h: "map (inactivate i) ds = ds" by (simp add: inactivate_def map_idI)
    from True have "inactivate i d = d\<lparr>status := False\<rparr>" by (simp add: inactivate_def)
    with True h show ?thesis by simp
  next
    case False
    with Cons show ?thesis by (simp add: inactivate_def)
  qed
qed

lemma get_and_update_distinct:
  assumes "distinct (map oid (col s))"
  shows "get_and_update col upd i s =
           (if i \<in> set (map oid (col s)) then (Inr (), upd (update_status i False) s)
            else (Inl DoesNotExist, s))"
proof (cases "i \<in> set (map oid (col s))")
  case True
  then obtain x where x: "x \<in> set (col s)" "oid x = i" by auto
  from filter_unique_key[OF assms x(1)] x(2) have "filter (\<lambda>d. oid d = i) (col s) = [x]" by simp
  with True x(2) show ?thesis by (simp add: get_and_update_def objects_get_def)
next
  case False
  then have "filter (\<lambda>d. oid d = i) (col s) = []" by (auto simp: filter_empty_conv)
  with False show ?thesis by (simp add: get_and_update_def objects_get_def)
qed

lemma active_inactivate:
  "objects_bot_status b True (map (inactivate i) docs) =
   objects_bot_status b True (filter (\<lambda>d. oid d \<noteq> i) docs)"
  by (induction docs) (simp_all add: objects_bot_status_def inactivate_def)

lemma inactivate_idem: "inactivate i (inactivate i d) = inactivate i d"
  by (simp add: inactivate_def)

lemma oid_inactivate: "oid (inactivate i d) = oid d"
  by (simp add: inactivate_def)

lemma store_update_apply:
  "col_TrainingExamples_update f0 s = s\<lparr>col_TrainingExamples := f0 (col_TrainingExamples s)\<rparr>"
  "col_EntitySynonyms_update f1 s = s\<lparr>col_EntitySynonyms := f1 (col_EntitySynonyms s)\<rparr>"
  "col_LookupTables_update f2 s = s\<lparr>col_LookupTables := f2 (col_LookupTables s)\<rparr>"
  "col_RegexFeatures_update f3 s = s\<lparr>col_RegexFeatures := f3 (col_RegexFeatures s)\<rparr>"
  "col_Intents_update f4 s = s\<lparr>col_Intents := f4 (col_Intents s)\<rparr>"
  "col_Entities_update f5 s = s\<lparr>col_Entities := f5 (col_Entities s)\<rparr>"
  "col_Forms_update f6 s = s\<lparr>col_Forms := f6 (col_Forms s)\<rparr>"
  "col_Responses_update f7 s = s\<lparr>col_Responses := f7 (col_Responses s)\<rparr>"
  "col_Actions_update f8 s = s\<lparr>col_Actions := f8 (col_Actions s)\<rparr>"
  "col_Slots_update f9 s = s\<lparr>col_Slots := f9 (col_Slots s)\<rparr>"
  "col_Stories_update f10 s = s\<lparr>col_Stories := f10 (col_Stories s)\<rparr>"
  "col_Configs_update f11 s = s\<lparr>col_Configs := f11 (col_Configs s)\<rparr>"
  by (cases s; simp)+

lemma remove_document_try:
  "remove_document document i s =
     (case fst (try_remove document i s) of
        Inl e \<Rightarrow> (Inl (Exception ''Unable to remove document''), snd (try_remove document i s))
      | Inr u \<Rightarrow> (Inr (), snd (try_remove document i s)))"
  unfolding remove_document_def
  by (cases "try_remove document i s"; cases "fst (try_remove document i s)";
      simp split: error.splits)

lemma try_remove_distinct:
  assumes "distinct (oids document s)"
  shows "try_remove document i s =
           (if i \<in> set (oids document s) then (Inr (), mark_inactive document i s)
            else (Inl DoesNotExist, s))"
proof (cases document)
  case C_TrainingExamples
  with assms have d: "distinct (map oid (col_TrainingExamples s))" by (simp add: oids_def)
  note g = get_and_update_distinct[where col = col_TrainingExamples and s = s, OF d]
  have u: "col_TrainingExamples_update (update_status i False) s =
             s\<lparr>col_TrainingExamples := update_status i False (col_TrainingExamples s)\<rparr>"
    by (rule store_update_apply)
  show ?thesis
    unfolding C_TrainingExamples
    by (simp add: try_remove_def g oids_def mark_inactive_def u update_status_inactivate[OF d])
next
  case C_EntitySynonyms
  with assms have d: "distinct (map oid (col_EntitySynonyms s))" by (simp add: oids_def)
  note g = get_and_update_distinct[where col = col_EntitySynonyms and s = s, OF d]
  have u: "col_EntitySynonyms_update (update_status i False) s =
             s\<lparr>col_EntitySynonyms := update_status i False (col_EntitySynonyms s)\<rparr>"
    by (rule store_update_apply)
  show ?thesis
    unfolding C_EntitySynonyms
    by (simp add: try_remove_def g oids_def mark_inactive_def u update_status_inactivate[OF d])
next
  case C_LookupTables
  with assms have d: "distinct (map oid (col_LookupTables s))" by (simp add: oids_def)
  note g = get_and_update_distinct[where col = col_LookupTables and s = s, OF d]
  have u: "col_LookupTables_update (update_status i False) s =
             s\<lparr>col_LookupTables := update_status i False (col_LookupTables s)\<rparr>"
    by (rule store_update_apply)
  show ?thesis
    unfolding C_LookupTables
    by (simp add: try_remove_def g oids_def mark_inactive_def u update_status_inactivate[OF d])
next
  case C_RegexFeatures
  with assms have d: "distinct (map oid (col_RegexFeatures s))" by (simp add: oids_def)
  note g = get_and_update_distinct[where col = col_RegexFeatures and s = s, OF d]
  have u: "col_RegexFeatures_update (update_status i False) s =
             s\<lparr>col_RegexFeatures := update_status i False (col_RegexFeatures s)\<rparr>"
    by (rule store_update_apply)
  show ?thesis
    unfolding C_RegexFeatures
    by (simp add: try_remove_def g oids_def mark_inactive_def u update_status_inactivate[OF d])
next
  case C_Intents
  with assms have d: "distinct (map oid (col_Intents s))" by (simp add: oids_def)
  note g = get_and_update_distinct[where col = col_Intents and s = s, OF d]
  have u: "col_Intents_update (update_status i False) s =
             s\<lparr>col_Intents := update_status i False (col_Intents s)\<rparr>"
    by (rule store_update_apply)
  show ?thesis
    unfolding C_Intents
    by (simp add: try_remove_def g oids_def mark_inactive_def u update_status_inactivate[OF d])
next
  case C_Entities
  with assms have d: "distinct (map oid (col_Entities s))" by (simp add: oids_def)
  note g = get_and_update_distinct[where col = col_Entities and s = s, OF d]
  have u: "col_Entities_update (update_status i False) s =
             s\<lparr>col_Entities := update_status i False (col_Entities s)\<rparr>"
    by (rule store_update_apply)
  show ?thesis
    unfolding C_Entities
    by (simp add: try_remove_def g oids_def mark_inactive_def u update_status_inactivate[OF d])
next
  case C_Forms
  with assms have d: "distinct (map oid (col_Forms s))" by (simp add: oids_def)
  note g = get_and_update_distinct[where col = col_Forms and s = s, OF d]
  have u: "col_Forms_update (update_status i False) s =
             s\<lparr>col_Forms := update_status i False (col_Forms s)\<rparr>"
    by (rule store_update_apply)
  show ?thesis
    unfolding C_Forms
    by (simp add: try_remove_def g oids_def mark_inactive_def u update_status_inactivate[OF d])
next
  case C_Responses
  with assms have d: "distinct (map oid (col_Responses s))" by (simp add: oids_def)
  note g = get_and_update_distinct[where col = col_Responses and s = s, OF d]
  have u: "col_Responses_update (update_status i False) s =
             s\<lparr>col_Responses := update_status i False (col_Responses s)\<rparr>"
    by (rule store_update_apply)
  show ?thesis
    unfolding C_Responses
    by (simp add: try_remove_def g oids_def mark_inactive_def u update_status_inactivate[OF d])
next
  case C_Actions
  with assms have d: "distinct (map oid (col_Actions s))" by (simp add: oids_def)
  note g = get_and_update_distinct[where col = col_Actions and s = s, OF d]
  have u: "col_Actions_update (update_status i False) s =
             s\<lparr>col_Actions := update_status i False (col_Actions s)\<rparr>"
    by (rule store_update_apply)
  show ?thesis
    unfolding C_Actions
    by (simp add: try_remove_def g oids_def mark_inactive_def u update_status_inactivate[OF d])
next
  case C_Slots
  with assms have d: "distinct (map oid (col_Slots s))" by (simp add: oids_def)
  note g = get_and_update_distinct[where col = col_Slots and s = s, OF d]
  have u: "col_Slots_update (update_status i False) s =
             s\<lparr>col_Slots := update_status i False (col_Slots s)\<rparr>"
    by (rule store_update_apply)
  show ?thesis
    unfolding C_Slots
    by (simp add: try_remove_def g oids_def mark_inactive_def u update_status_inactivate[OF d])
next
  case C_Stories
  with assms have d: "distinct (map oid (col_Stories s))" by (simp add: oids_def)
  note g = get_and_update_distinct[where col = col_Stories and s = s, OF d]
  have u: "col_Stories_update (update_status i False) s =
             s\<lparr>col_Stories := update_status i False (col_Stories s)\<rparr>"
    by (rule store_update_apply)
  show ?thesis
    unfolding C_Stories
    by (simp add: try_remove_def g oids_def mark_inactive_def u update_status_inactivate[OF d])
next
  case C_Configs
  with assms have d: "distinct (map oid (col_Configs s))" by (simp add: oids_def)
  note g = get_and_update_distinct[where col = col_Configs and s = s, OF d]
  have u: "col_Configs_update (update_status i False) s =
             s\<lparr>col_Configs := update_status i False (col_Configs s)\<rparr>"
    by (rule store_update_apply)
  show ?thesis
    unfolding C_Configs
    by (simp add: try_remove_def g oids_def mark_inactive_def u update_status_inactivate[OF d])
qed

lemma remove_document_distinct:
  assumes "distinct (oids document s)"
  shows "remove_document document i s =
           (if i \<in> set (oids document s) then (Inr (), mark_inactive document i s)
            else (Inl (Exception ''Unable to remove document''), s))"
  unfolding remove_document_try try_remove_distinct[OF assms] by simp

lemma oids_mark_inactive: "oids document (mark_inactive document i s) = oids document s"
  by (cases document) (simp_all add: oids_def mark_inactive_def oid_inactivate)

lemma mark_inactive_idem:
  "mark_inactive document i (mark_inactive document i s) = mark_inactive document i s"
  by (cases document) (simp_all add: mark_inactive_def inactivate_idem)

lemma active_mark_inactive:
  "objects_bot_status b True (col_TrainingExamples (mark_inactive document i s)) =
     objects_bot_status b True (col_TrainingExamples (delete_record document i s))"
  "objects_bot_status b True (col_EntitySynonyms (mark_inactive document i s)) =
     objects_bot_status b True (col_EntitySynonyms (delete_record document i s))"
  "objects_bot_status b True (col_LookupTables (mark_inactive document i s)) =
     objects_bot_status b True (col_LookupTables (delete_record document i s))"
  "objects_bot_status b True (col_RegexFeatures (mark_inactive document i s)) =
     objects_bot_status b True (col_RegexFeatures (delete_record document i s))"
  "objects_bot_status b True (col_Intents (mark_inactive document i s)) =
     objects_bot_status b True (col_Intents (delete_record document i s))"
  "objects_bot_status b True (col_Entities (mark_inactive document i s)) =
     objects_bot_status b True (col_Entities (delete_record document i s))"
  "objects_bot_status b True (col_Forms (mark_inactive document i s)) =
     objects_bot_status b True (col_Forms (delete_record document i s))"
  "objects_bot_status b True (col_Responses (mark_inactive document i s)) =
     objects_bot_status b True (col_Responses (delete_record document i s))"
  "objects_bot_status b True (col_Actions (mark_inactive document i s)) =
     objects_bot_status b True (col_Actions (delete_record document i s))"
  "objects_bot_status b True (col_Slots (mark_inactive document i s)) =
     objects_bot_status b True (col_Slots (delete_record document i s))"
  "objects_bot_status b True (col_Stories (mark_inactive document i s)) =
     objects_bot_status b True (col_Stories (delete_record document i s))"
  by (cases document; simp add: mark_inactive_def delete_record_def active_inactivate)+

lemma SessionConfigs_mark_inactive:
  "col_SessionConfigs (mark_inactive document i s) = col_SessionConfigs (delete_record document i s)"
  by (cases document; simp add: mark_inactive_def delete_record_def)

lemma load_nlu_mark_inactive:
  "load_nlu (mark_inactive document i s) b = load_nlu (delete_record document i s) b"
  unfolding load_nlu_def prepare_training_examples_def fetch_training_examples_def
    prepare_training_synonyms_def fetch_synonyms_def
    prepare_training_lookup_tables_def fetch_lookup_tables_def
    prepare_training_regex_features_def fetch_regex_features_def
  by (simp only: active_mark_inactive)

lemma load_domain_mark_inactive:
  "load_domain (mark_inactive document i s) b = load_domain (delete_record document i s) b"
  unfolding load_domain_def prepare_training_session_config_def fetch_session_config_def
    prepare_training_intents_def fetch_intents_def
    prepare_training_actions_def fetch_actions_def
    prepare_training_slots_def fetch_slots_def
    prepare_training_responses_def fetch_responses_def
    prepare_training_forms_def fetch_forms_def
    prepare_training_domain_entities_def fetch_domain_entities_def
  by (simp only: active_mark_inactive SessionConfigs_mark_inactive)

lemma load_stories_mark_inactive:
  "load_stories (mark_inactive document i s) b clock = load_stories (delete_record document i s) b clock"
  unfolding load_stories_def by (simp only: active_mark_inactive)


text \<open>
  The soft delete as the spec describes it, for every class that declares a status and
  every store with distinct keys: \<open>remove_document\<close> on an existing record sets the
  status of that record to inactive and changes nothing else, it raises "Unable to
  remove document" exactly when no record has the key, a second removal of the same
  key succeeds and changes nothing, and \<open>load_nlu\<close>, \<open>load_domain\<close> and \<open>load_stories\<close>
  give what they would give if the record had been deleted.
\<close>

lemma remove_document_soft_delete:
  assumes "distinct (oids document s)"
  shows "remove_document document i s =
           (if i \<in> set (oids document s) then (Inr (), mark_inactive document i s)
            else (Inl (Exception ''Unable to remove document''), s))
       \<and> (i \<in> set (oids document s) \<longrightarrow>
            remove_document document i (mark_inactive document i s) =
              (Inr (), mark_inactive document i s))
       \<and> load_nlu (mark_inactive document i s) b = load_nlu (delete_record document i s) b
       \<and> load_domain (mark_inactive document i s) b = load_domain (delete_record document i s) b
       \<and> load_stories (mark_inactive document i s) b clock =
           load_stories (delete_record document i s) b clock"
proof -
  have again: "remove_document document i (mark_inactive document i s) =
                 (Inr (), mark_inactive document i s)" if "i \<in> set (oids document s)"
  proof -
    have d: "distinct (oids document (mark_inactive document i s))"
      using assms by (simp only: oids_mark_inactive)
    from that have m: "i \<in> set (oids document (mark_inactive document i s))"
      by (simp only: oids_mark_inactive)
    from remove_document_distinct[OF d, of i] m show ?thesis
      by (simp only: if_True mark_inactive_idem)
  qed
  from remove_document_distinct[OF assms, of i] again
    load_nlu_mark_inactive[of document i s b] load_domain_mark_inactive[of document i s b]
    load_stories_mark_inactive[of document i s b clock]
  show ?thesis by blast
qed

text \<open>
  C7. The claim ends with: a load for the bot after \<open>remove_document\<close> excludes the
  soft-deleted record. \<open>load_config\<close> does not: after the configuration of the bot \<open>b\<close>
  has been soft-deleted (the removal succeeds and sets its status to inactive),
  \<open>load_config\<close> still returns its language \<open>fr\<close>, where a store without the record
  gives the template's \<open>en\<close>.
\<close>

theorem load_config_returns_soft_deleted:
  "remove_document C_Configs 0 config_store =
     (Inr (), config_store\<lparr>col_Configs := [example_config\<lparr>status := False\<rparr>]\<rparr>)
   \<and> load_config example_template (snd (remove_document C_Configs 0 config_store)) ''b'' =
       Inr \<lparr>cd_language = ''fr'', cd_pipeline = [], cd_policies = []\<rparr>
   \<and> load_config example_template (delete_record C_Configs 0 config_store) ''b'' =
       Inr \<lparr>cd_language = ''en'', cd_pipeline = [], cd_policies = []\<rparr>"
proof -
  have r: "remove_document C_Configs 0 config_store =
     (Inr (), config_store\<lparr>col_Configs := [example_config\<lparr>status := False\<rparr>]\<rparr>)"
    by (simp add: remove_document_def try_remove_def get_and_update_def objects_get_def
          config_store_def example_config_def empty_store_def)
  have a: "load_config example_template
             (config_store\<lparr>col_Configs := [example_config\<lparr>status := False\<rparr>]\<rparr>) ''b'' =
       Inr \<lparr>cd_language = ''fr'', cd_pipeline = [], cd_policies = []\<rparr>"
    by (simp add: load_config_def fetch_configs_def objects_get_def example_config_def)
  have b: "load_config example_template (delete_record C_Configs 0 config_store) ''b'' =
       Inr \<lparr>cd_language = ''en'', cd_pipeline = [], cd_policies = []\<rparr>"
    by (simp add: load_config_def fetch_configs_def objects_get_def delete_record_def
          config_store_def example_config_def example_template_def empty_store_def)
  from r a b show ?thesis by (simp only: snd_conv simp_thms)
qed

section \<open>Validation of slots\<close>

text \<open>
  What holds of \<open>Slots_validate\<close>: a categorical slot without values is rejected, a float
  slot with both bounds unset gets the bounds \<open>0.0\<close> and \<open>1.0\<close>, and no float slot is
  ever rejected with a ValidationError.
\<close>

lemma Slots_validate_categorical_empty:
  "\<not> check_empty_string (sl_name self) \<Longrightarrow> sl_type self = ''categorical'' \<Longrightarrow>
   sl_values self = [] \<Longrightarrow>
   Slots_validate self =
     Inl (ValidationError ''CategoricalSlot must have list of categories in values field'')"
  by (simp add: Slots_validate_def Slots_validate_run_def check_empty_string_def
        FloatSlot_type_name_def CategoricalSlot_type_name_def)

lemma Slots_validate_float_defaults:
  "\<not> check_empty_string (sl_name self) \<Longrightarrow> sl_type self = ''float'' \<Longrightarrow>
   sl_min_value self = None \<Longrightarrow> sl_max_value self = None \<Longrightarrow>
   Slots_validate self =
     Inr (self\<lparr>sl_min_value := Some (PyFloat 0), sl_max_value := Some (PyFloat 1)\<rparr>)"
  by (simp add: Slots_validate_def Slots_validate_run_def check_empty_string_def
        FloatSlot_type_name_def pynum_truthy_def pynum_value_def pynum_less_def Let_def)

lemma Slots_validate_float_never_ValidationError:
  "sl_type self = ''float'' \<Longrightarrow> \<not> is_ValidationError (Slots_validate self)"
  by (auto simp: Slots_validate_def Slots_validate_run_def FloatSlot_type_name_def
        is_ValidationError_def pynum_less_def Let_def split: option.splits)

text \<open>
  C8. The claim includes that a float slot whose \<open>min_value\<close> is not less than its
  \<open>max_value\<close> fails validation. The code accepts it: for the float slot with
  \<open>min_value = 5\<close> and \<open>max_value = 2\<close>, \<open>validate\<close> returns normally and leaves the
  slot as it is.
\<close>

theorem Slots_validate_float_bounds_unchecked:
  "Slots_validate \<lparr>oid = 0, bot = ''b'', user = ''u'', timestamp = 7, status = True,
      sl_name = ''price'', sl_type = ''float'', sl_initial_value = JInt 1,
      sl_value_reset_delay = None, sl_auto_fill = True, sl_value = None, sl_values = [],
      sl_max_value = Some (PyInt 2), sl_min_value = Some (PyInt 5)\<rparr>
   = Inr \<lparr>oid = 0, bot = ''b'', user = ''u'', timestamp = 7, status = True,
      sl_name = ''price'', sl_type = ''float'', sl_initial_value = JInt 1,
      sl_value_reset_delay = None, sl_auto_fill = True, sl_value = None, sl_values = [],
      sl_max_value = Some (PyInt 2), sl_min_value = Some (PyInt 5)\<rparr>"
  by (simp add: Slots_validate_def Slots_validate_run_def check_empty_string_def
        FloatSlot_type_name_def pynum_truthy_def pynum_value_def pynum_less_def
        isinstance_int_def Let_def)

section \<open>Session configuration\<close>

text \<open>
  No field of \<open>SessionConfigs\<close> is unique, so the conflict branch of
  \<open>save_session_config\<close> is never taken: the save always succeeds. A bot without a
  stored session configuration loads the defaults.
\<close>

lemma save_session_config_never_conflicts:
  "fst (save_session_config session_config b u now s) = Inr ()"
  by (simp add: save_session_config_def SessionConfigs_insert_def violates_unique_def
        SessionConfigs_unique_fields_def objects_insert_def checked_def
        SessionConfigs_validate_def split: option.splits)

lemma prepare_training_session_config_default:
  "objects_bot b (col_SessionConfigs s) = [] \<Longrightarrow>
   prepare_training_session_config s b = Inr \<lparr>session_expiration_time = 60, carry_over_slots = True\<rparr>"
  by (simp add: prepare_training_session_config_def fetch_session_config_def objects_get_def
        objects_bot_def SessionConfig_default_def)

text \<open>
  C9. The claim is that saving a session configuration for a bot that already has one
  fails with "Session Config already exist for the bot" and leaves the store
  unchanged. The code does not: the second save for the bot \<open>b\<close> returns normally and
  leaves two rows, after which reading the session configuration of \<open>b\<close> raises
  \<open>MultipleObjectsReturned\<close>.
\<close>

theorem save_session_config_duplicate_accepted:
  "save_session_config (Some \<lparr>session_expiration_time = 60, carry_over_slots = True\<rparr>) ''b'' ''u'' 1
     empty_store
   = (Inr (), empty_store\<lparr>col_SessionConfigs :=
        [\<lparr>oid = 0, bot = ''b'', user = ''u'', timestamp = 1,
          sc_sesssionExpirationTime = 60, sc_carryOverSlots = True\<rparr>], next_oid := 1\<rparr>)
   \<and> save_session_config (Some \<lparr>session_expiration_time = 30, carry_over_slots = False\<rparr>) ''b'' ''u'' 2
     (empty_store\<lparr>col_SessionConfigs :=
        [\<lparr>oid = 0, bot = ''b'', user = ''u'', timestamp = 1,
          sc_sesssionExpirationTime = 60, sc_carryOverSlots = True\<rparr>], next_oid := 1\<rparr>)
   = (Inr (), empty_store\<lparr>col_SessionConfigs :=
        [\<lparr>oid = 0, bot = ''b'', user = ''u'', timestamp = 1,
          sc_sesssionExpirationTime = 60, sc_carryOverSlots = True\<rparr>,
         \<lparr>oid = 1, bot = ''b'', user = ''u'', timestamp = 2,
          sc_sesssionExpirationTime = 30, sc_carryOverSlots = False\<rparr>], next_oid := 2\<rparr>)
   \<and> prepare_training_session_config (empty_store\<lparr>col_SessionConfigs :=
        [\<lparr>oid = 0, bot = ''b'', user = ''u'', timestamp = 1,
          sc_sesssionExpirationTime = 60, sc_carryOverSlots = True\<rparr>,
         \<lparr>oid = 1, bot = ''b'', user = ''u'', timestamp = 2,
          sc_sesssionExpirationTime = 30, sc_carryOverSlots = False\<rparr>], next_oid := 2\<rparr>) ''b''
   = Inl MultipleObjectsReturned"
  by (simp add: save_session_config_def SessionConfigs_insert_def violates_unique_def
        SessionConfigs_unique_fields_def objects_insert_def checked_def
        SessionConfigs_validate_def extract_session_config_def empty_store_def
        assign_oids_def prepare_training_session_config_def fetch_session_config_def
        objects_get_def)

section \<open>Status is ignored by the listings and by the existence check\<close>

lemma add_entity_exists:
  "list_ex (\<lambda>d. bot d = b \<and> en_name d = name) (col_Entities s) \<Longrightarrow>
   add_entity name b u now s = (Inl (Exception ''Entity already exist!''), s)"
  by (simp add: add_entity_def isExist_found check_empty_string_def)

lemma add_action_exists:
  "list_ex (\<lambda>d. bot d = b \<and> ac_name d = name) (col_Actions s) \<Longrightarrow>
   add_action name b u now s = (Inl (Exception ''Entity already exist!''), s)"
  by (simp add: add_action_def isExist_found check_empty_string_def)

lemma add_training_example_exists:
  "list_ex (\<lambda>d. bot d = b \<and> te_text d = example) (col_TrainingExamples s) \<Longrightarrow>
   add_training_example find_entities strip_markup example intent b u now s =
     (Inl (Exception ''Training Example already exist!''), s)"
  by (simp add: add_training_example_def isExist_found check_empty_string_def)

lemma Intents_after_remove:
  assumes "d \<in> set (col_Intents s)" and "fst (remove_document C_Intents (oid d) s) = Inr ()"
  shows "list_ex (\<lambda>x. oid x = oid d \<and> \<not> status x) (col_Intents (snd (remove_document C_Intents (oid d) s)))"
    and "(oid d, it_name d) \<in> set (get_intents (snd (remove_document C_Intents (oid d) s)) (bot d))"
    and "add_intent (it_name d) (bot d) u now (snd (remove_document C_Intents (oid d) s)) =
           (Inl (Exception ''Intent already exist!''), snd (remove_document C_Intents (oid d) s))"
proof -
  let ?s' = "snd (remove_document C_Intents (oid d) s)"
  have c: "col_Intents ?s' = update_status (oid d) False (col_Intents s)"
    by (simp add: remove_document_Intents_ok[OF assms(2)])
  show "list_ex (\<lambda>x. oid x = oid d \<and> \<not> status x) (col_Intents ?s')"
    unfolding c by (rule update_status_marks[OF assms(1)])
  have "get_intents ?s' (bot d) =
          map (\<lambda>x. (oid x, it_name x)) (filter (\<lambda>x. bot x = bot d) (col_Intents s))"
    unfolding get_intents_def prepare_document_list_def objects_bot_def c
    by (rule update_status_map_filter) simp_all
  with assms(1) show "(oid d, it_name d) \<in> set (get_intents ?s' (bot d))"
    by (simp add: image_iff) blast
  have "list_ex (\<lambda>x. bot x = bot d \<and> it_name x = it_name d) (col_Intents ?s') =
        list_ex (\<lambda>x. bot x = bot d \<and> it_name x = it_name d) (col_Intents s)"
    unfolding c by (rule update_status_list_ex) simp
  with assms(1) have "list_ex (\<lambda>x. bot x = bot d \<and> it_name x = it_name d) (col_Intents ?s')"
    by (simp add: list_ex_iff) blast
  then show "add_intent (it_name d) (bot d) u now ?s' = (Inl (Exception ''Intent already exist!''), ?s')"
    by (rule add_intent_exists)
qed

lemma Entities_after_remove:
  assumes "d \<in> set (col_Entities s)" and "fst (remove_document C_Entities (oid d) s) = Inr ()"
  shows "list_ex (\<lambda>x. oid x = oid d \<and> \<not> status x) (col_Entities (snd (remove_document C_Entities (oid d) s)))"
    and "(oid d, en_name d) \<in> set (get_entities (snd (remove_document C_Entities (oid d) s)) (bot d))"
    and "add_entity (en_name d) (bot d) u now (snd (remove_document C_Entities (oid d) s)) =
           (Inl (Exception ''Entity already exist!''), snd (remove_document C_Entities (oid d) s))"
proof -
  let ?s' = "snd (remove_document C_Entities (oid d) s)"
  have c: "col_Entities ?s' = update_status (oid d) False (col_Entities s)"
    by (simp add: remove_document_Entities_ok[OF assms(2)])
  show "list_ex (\<lambda>x. oid x = oid d \<and> \<not> status x) (col_Entities ?s')"
    unfolding c by (rule update_status_marks[OF assms(1)])
  have "get_entities ?s' (bot d) =
          map (\<lambda>x. (oid x, en_name x)) (filter (\<lambda>x. bot x = bot d) (col_Entities s))"
    unfolding get_entities_def prepare_document_list_def objects_bot_def c
    by (rule update_status_map_filter) simp_all
  with assms(1) show "(oid d, en_name d) \<in> set (get_entities ?s' (bot d))"
    by (simp add: image_iff) blast
  have "list_ex (\<lambda>x. bot x = bot d \<and> en_name x = en_name d) (col_Entities ?s') =
        list_ex (\<lambda>x. bot x = bot d \<and> en_name x = en_name d) (col_Entities s)"
    unfolding c by (rule update_status_list_ex) simp
  with assms(1) have "list_ex (\<lambda>x. bot x = bot d \<and> en_name x = en_name d) (col_Entities ?s')"
    by (simp add: list_ex_iff) blast
  then show "add_entity (en_name d) (bot d) u now ?s' = (Inl (Exception ''Entity already exist!''), ?s')"
    by (rule add_entity_exists)
qed

lemma Actions_after_remove:
  assumes "d \<in> set (col_Actions s)" and "fst (remove_document C_Actions (oid d) s) = Inr ()"
  shows "list_ex (\<lambda>x. oid x = oid d \<and> \<not> status x) (col_Actions (snd (remove_document C_Actions (oid d) s)))"
    and "(oid d, ac_name d) \<in> set (get_actions (snd (remove_document C_Actions (oid d) s)) (bot d))"
    and "add_action (ac_name d) (bot d) u now (snd (remove_document C_Actions (oid d) s)) =
           (Inl (Exception ''Entity already exist!''), snd (remove_document C_Actions (oid d) s))"
proof -
  let ?s' = "snd (remove_document C_Actions (oid d) s)"
  have c: "col_Actions ?s' = update_status (oid d) False (col_Actions s)"
    by (simp add: remove_document_Actions_ok[OF assms(2)])
  show "list_ex (\<lambda>x. oid x = oid d \<and> \<not> status x) (col_Actions ?s')"
    unfolding c by (rule update_status_marks[OF assms(1)])
  have "get_actions ?s' (bot d) =
          map (\<lambda>x. (oid x, ac_name x)) (filter (\<lambda>x. bot x = bot d) (col_Actions s))"
    unfolding get_actions_def prepare_document_list_def objects_bot_def c
    by (rule update_status_map_filter) simp_all
  with assms(1) show "(oid d, ac_name d) \<in> set (get_actions ?s' (bot d))"
    by (simp add: image_iff) blast
  have "list_ex (\<lambda>x. bot x = bot d \<and> ac_name x = ac_name d) (col_Actions ?s') =
        list_ex (\<lambda>x. bot x = bot d \<and> ac_name x = ac_name d) (col_Actions s)"
    unfolding c by (rule update_status_list_ex) simp
  with assms(1) have "list_ex (\<lambda>x. bot x = bot d \<and> ac_name x = ac_name d) (col_Actions ?s')"
    by (simp add: list_ex_iff) blast
  then show "add_action (ac_name d) (bot d) u now ?s' = (Inl (Exception ''Entity already exist!''), ?s')"
    by (rule add_action_exists)
qed

lemma TrainingExamples_after_remove:
  assumes "d \<in> set (col_TrainingExamples s)"
    and "fst (remove_document C_TrainingExamples (oid d) s) = Inr ()"
  shows "list_ex (\<lambda>x. oid x = oid d \<and> \<not> status x)
           (col_TrainingExamples (snd (remove_document C_TrainingExamples (oid d) s)))"
    and "(oid d, prepare_nlu_text (te_text d) (te_entities d)) \<in>
           set (get_training_examples prepare_nlu_text
                  (snd (remove_document C_TrainingExamples (oid d) s)) (te_intent d) (bot d))"
    and "add_training_example find_entities strip_markup (te_text d) intent (bot d) u now
           (snd (remove_document C_TrainingExamples (oid d) s)) =
           (Inl (Exception ''Training Example already exist!''),
            snd (remove_document C_TrainingExamples (oid d) s))"
proof -
  let ?s' = "snd (remove_document C_TrainingExamples (oid d) s)"
  have c: "col_TrainingExamples ?s' = update_status (oid d) False (col_TrainingExamples s)"
    by (simp add: remove_document_TrainingExamples_ok[OF assms(2)])
  show "list_ex (\<lambda>x. oid x = oid d \<and> \<not> status x) (col_TrainingExamples ?s')"
    unfolding c by (rule update_status_marks[OF assms(1)])
  have "get_training_examples prepare_nlu_text ?s' (te_intent d) (bot d) =
          map (\<lambda>x. (oid x, prepare_nlu_text (te_text x) (te_entities x)))
            (filter (\<lambda>x. bot x = bot d \<and> te_intent x = te_intent d) (col_TrainingExamples s))"
    unfolding get_training_examples_def c
    by (rule update_status_map_filter) simp_all
  with assms(1) show "(oid d, prepare_nlu_text (te_text d) (te_entities d)) \<in>
           set (get_training_examples prepare_nlu_text ?s' (te_intent d) (bot d))"
    by (simp add: image_iff) blast
  have "list_ex (\<lambda>x. bot x = bot d \<and> te_text x = te_text d) (col_TrainingExamples ?s') =
        list_ex (\<lambda>x. bot x = bot d \<and> te_text x = te_text d) (col_TrainingExamples s)"
    unfolding c by (rule update_status_list_ex) simp
  with assms(1) have "list_ex (\<lambda>x. bot x = bot d \<and> te_text x = te_text d) (col_TrainingExamples ?s')"
    by (simp add: list_ex_iff) blast
  then show "add_training_example find_entities strip_markup (te_text d) intent (bot d) u now ?s' =
           (Inl (Exception ''Training Example already exist!''), ?s')"
    by (rule add_training_example_exists)
qed

text \<open>
  C10. The status flag is ignored by the listing operations and by the duplicate
  check. When \<open>remove_document\<close> has soft-deleted an intent, an entity, an action or a
  training example, the stored record is inactive, it still appears in the output of
  \<open>get_intents\<close>, \<open>get_entities\<close>, \<open>get_actions\<close> or \<open>get_training_examples\<close> for its
  bot, and \<open>add_intent\<close>, \<open>add_entity\<close>, \<open>add_action\<close> or \<open>add_training_example\<close> for the
  same bot and name or text still fails with the "already exist" error of the
  operation and leaves the store as it is.
\<close>

theorem soft_deleted_still_listed_and_blocking:
  "(d \<in> set (col_Intents s) \<and> fst (remove_document C_Intents (oid d) s) = Inr () \<longrightarrow>
      list_ex (\<lambda>x. oid x = oid d \<and> \<not> status x) (col_Intents (snd (remove_document C_Intents (oid d) s)))
    \<and> (oid d, it_name d) \<in> set (get_intents (snd (remove_document C_Intents (oid d) s)) (bot d))
    \<and> add_intent (it_name d) (bot d) u now (snd (remove_document C_Intents (oid d) s)) =
        (Inl (Exception ''Intent already exist!''), snd (remove_document C_Intents (oid d) s)))
   \<and> (e \<in> set (col_Entities s) \<and> fst (remove_document C_Entities (oid e) s) = Inr () \<longrightarrow>
      list_ex (\<lambda>x. oid x = oid e \<and> \<not> status x) (col_Entities (snd (remove_document C_Entities (oid e) s)))
    \<and> (oid e, en_name e) \<in> set (get_entities (snd (remove_document C_Entities (oid e) s)) (bot e))
    \<and> add_entity (en_name e) (bot e) u now (snd (remove_document C_Entities (oid e) s)) =
        (Inl (Exception ''Entity already exist!''), snd (remove_document C_Entities (oid e) s)))
   \<and> (a \<in> set (col_Actions s) \<and> fst (remove_document C_Actions (oid a) s) = Inr () \<longrightarrow>
      list_ex (\<lambda>x. oid x = oid a \<and> \<not> status x) (col_Actions (snd (remove_document C_Actions (oid a) s)))
    \<and> (oid a, ac_name a) \<in> set (get_actions (snd (remove_document C_Actions (oid a) s)) (bot a))
    \<and> add_action (ac_name a) (bot a) u now (snd (remove_document C_Actions (oid a) s)) =
        (Inl (Exception ''Entity already exist!''), snd (remove_document C_Actions (oid a) s)))
   \<and> (t \<in> set (col_TrainingExamples s) \<and>
        fst (remove_document C_TrainingExamples (oid t) s) = Inr () \<longrightarrow>
      list_ex (\<lambda>x. oid x = oid t \<and> \<not> status x)
        (col_TrainingExamples (snd (remove_document C_TrainingExamples (oid t) s)))
    \<and> (oid t, prepare_nlu_text (te_text t) (te_entities t)) \<in>
        set (get_training_examples prepare_nlu_text
               (snd (remove_document C_TrainingExamples (oid t) s)) (te_intent t) (bot t))
    \<and> add_training_example find_entities strip_markup (te_text t) intent (bot t) u now
        (snd (remove_document C_TrainingExamples (oid t) s)) =
        (Inl (Exception ''Training Example already exist!''),
         snd (remove_document C_TrainingExamples (oid t) s)))"
  by (intro conjI impI; elim conjE;
      (rule Intents_after_remove Entities_after_remove Actions_after_remove
         TrainingExamples_after_remove; assumption))

theorem soft_deleted_still_listed_and_blocking_witness:
  "example_intent \<in> set (col_Intents example_store)
   \<and> fst (remove_document C_Intents (oid example_intent) example_store) = Inr ()
   \<and> (oid example_intent, ''bye'') \<in>
       set (get_intents (snd (remove_document C_Intents (oid example_intent) example_store)) ''b'')
   \<and> add_intent ''bye'' ''b'' ''u'' 9
        (snd (remove_document C_Intents (oid example_intent) example_store)) =
       (Inl (Exception ''Intent already exist!''),
        snd (remove_document C_Intents (oid example_intent) example_store))
   \<and> example_entity \<in> set (col_Entities example_store)
   \<and> fst (remove_document C_Entities (oid example_entity) example_store) = Inr ()
   \<and> (oid example_entity, ''city'') \<in>
       set (get_entities (snd (remove_document C_Entities (oid example_entity) example_store)) ''b'')
   \<and> add_entity ''city'' ''b'' ''u'' 9
        (snd (remove_document C_Entities (oid example_entity) example_store)) =
       (Inl (Exception ''Entity already exist!''),
        snd (remove_document C_Entities (oid example_entity) example_store))
   \<and> example_action \<in> set (col_Actions example_store)
   \<and> fst (remove_document C_Actions (oid example_action) example_store) = Inr ()
   \<and> (oid example_action, ''utter_greet'') \<in>
       set (get_actions (snd (remove_document C_Actions (oid example_action) example_store)) ''b'')
   \<and> add_action ''utter_greet'' ''b'' ''u'' 9
        (snd (remove_document C_Actions (oid example_action) example_store)) =
       (Inl (Exception ''Entity already exist!''),
        snd (remove_document C_Actions (oid example_action) example_store))
   \<and> example_training_example \<in> set (col_TrainingExamples example_store)
   \<and> fst (remove_document C_TrainingExamples (oid example_training_example) example_store) = Inr ()
   \<and> (oid example_training_example, ''hello'') \<in>
       set (get_training_examples example_prepare_nlu_text
              (snd (remove_document C_TrainingExamples (oid example_training_example) example_store))
              ''greet'' ''b'')
   \<and> add_training_example example_find_entities example_strip_markup ''hello'' ''greet'' ''b'' ''u'' 9
        (snd (remove_document C_TrainingExamples (oid example_training_example) example_store)) =
       (Inl (Exception ''Training Example already exist!''),
        snd (remove_document C_TrainingExamples (oid example_training_example) example_store))"
proof -
  have h1: "example_intent \<in> set (col_Intents example_store)"
    and h2: "example_entity \<in> set (col_Entities example_store)"
    and h3: "example_action \<in> set (col_Actions example_store)"
    and h4: "example_training_example \<in> set (col_TrainingExamples example_store)"
    by (simp_all add: example_store_def)
  have r1: "fst (remove_document C_Intents (oid example_intent) example_store) = Inr ()"
    by (simp add: remove_document_def try_remove_def get_and_update_def objects_get_def example_store_def
          example_intent_def)
  have r2: "fst (remove_document C_Entities (oid example_entity) example_store) = Inr ()"
    by (simp add: remove_document_def try_remove_def get_and_update_def objects_get_def example_store_def
          example_entity_def)
  have r3: "fst (remove_document C_Actions (oid example_action) example_store) = Inr ()"
    by (simp add: remove_document_def try_remove_def get_and_update_def objects_get_def example_store_def
          example_action_def)
  have r4: "fst (remove_document C_TrainingExamples (oid example_training_example) example_store) = Inr ()"
    by (simp add: remove_document_def try_remove_def get_and_update_def objects_get_def example_store_def
          example_training_example_def example_other_training_example_def)
  have f: "bot example_intent = ''b''" "it_name example_intent = ''bye''"
    "bot example_entity = ''b''" "en_name example_entity = ''city''"
    "bot example_action = ''b''" "ac_name example_action = ''utter_greet''"
    "bot example_training_example = ''b''" "te_text example_training_example = ''hello''"
    "te_intent example_training_example = ''greet''"
    "example_prepare_nlu_text (te_text example_training_example)
       (te_entities example_training_example) = ''hello''"
    "example_prepare_nlu_text ''hello'' (te_entities example_training_example) = ''hello''"
    by (simp_all add: example_intent_def example_entity_def example_action_def
          example_training_example_def example_prepare_nlu_text_def)
  note T = soft_deleted_still_listed_and_blocking
    [where d = example_intent and e = example_entity and a = example_action
       and t = example_training_example and s = example_store and u = "''u''" and now = 9
       and prepare_nlu_text = example_prepare_nlu_text and find_entities = example_find_entities
       and strip_markup = example_strip_markup and intent = "''greet''", unfolded f]
  from T h1 r1 have c1: "(oid example_intent, ''bye'') \<in>
       set (get_intents (snd (remove_document C_Intents (oid example_intent) example_store)) ''b'')
     \<and> add_intent ''bye'' ''b'' ''u'' 9
        (snd (remove_document C_Intents (oid example_intent) example_store)) =
       (Inl (Exception ''Intent already exist!''),
        snd (remove_document C_Intents (oid example_intent) example_store))"
    by (simp only: simp_thms)
  from T h2 r2 have c2: "(oid example_entity, ''city'') \<in>
       set (get_entities (snd (remove_document C_Entities (oid example_entity) example_store)) ''b'')
     \<and> add_entity ''city'' ''b'' ''u'' 9
        (snd (remove_document C_Entities (oid example_entity) example_store)) =
       (Inl (Exception ''Entity already exist!''),
        snd (remove_document C_Entities (oid example_entity) example_store))"
    by (simp only: simp_thms)
  from T h3 r3 have c3: "(oid example_action, ''utter_greet'') \<in>
       set (get_actions (snd (remove_document C_Actions (oid example_action) example_store)) ''b'')
     \<and> add_action ''utter_greet'' ''b'' ''u'' 9
        (snd (remove_document C_Actions (oid example_action) example_store)) =
       (Inl (Exception ''Entity already exist!''),
        snd (remove_document C_Actions (oid example_action) example_store))"
    by (simp only: simp_thms)
  from T h4 r4 have c4: "(oid example_training_example, ''hello'') \<in>
       set (get_training_examples example_prepare_nlu_text
              (snd (remove_document C_TrainingExamples (oid example_training_example) example_store))
              ''greet'' ''b'')
     \<and> add_training_example example_find_entities example_strip_markup ''hello'' ''greet'' ''b'' ''u'' 9
        (snd (remove_document C_TrainingExamples (oid example_training_example) example_store)) =
       (Inl (Exception ''Training Example already exist!''),
        snd (remove_document C_TrainingExamples (oid example_training_example) example_store))"
    by (simp only: simp_thms)
  from h1 h2 h3 h4 r1 r2 r3 r4 c1 c2 c3 c4 show ?thesis
    unfolding f by (simp only: simp_thms)
qed

end
